theory Spec2Isabelle
  imports Complex_Main "HOL-Library.Sublist"
begin

section \<open>Python and numpy primitives used by the notebook\<close>

text \<open>
  The program is the notebook \<^verbatim>\<open>tutorials/halluc_PD-L1_binder/halluc_PD-L1_binder.ipynb\<close>.
  Its code cells build lists of command lines for the external generator, filter a table
  of metrics, copy the artifacts of the selected designs and derive the commands of the
  next generation from the metadata of the selected designs.

  Exceptions are values of the type \<open>error\<close>; a cell that can raise returns \<open>error + 'a\<close>.
\<close>

datatype error =
    ZeroDivisionError
  | IndexError
  | KeyError string
  | FileNotFoundError string
  | SameFileError
  | UnpicklingError
  | EOFError

subsection \<open>\<^verbatim>\<open>str\<close> of an integer\<close>

definition digit_char :: "nat \<Rightarrow> char" where
  "digit_char d =
     (if d = 0 then CHR ''0'' else if d = 1 then CHR ''1'' else if d = 2 then CHR ''2''
      else if d = 3 then CHR ''3'' else if d = 4 then CHR ''4'' else if d = 5 then CHR ''5''
      else if d = 6 then CHR ''6'' else if d = 7 then CHR ''7'' else if d = 8 then CHR ''8''
      else CHR ''9'')"

fun str_nat :: "nat \<Rightarrow> string" where
  "str_nat n = (if n < 10 then [digit_char n] else str_nat (n div 10) @ [digit_char (n mod 10)])"

declare str_nat.simps [simp del]

definition str_int :: "int \<Rightarrow> string" where
  "str_int i = (if i < 0 then CHR ''-'' # str_nat (nat (- i)) else str_nat (nat i))"

subsection \<open>\<^verbatim>\<open>np.arange(start, stop, step)\<close> on integers\<close>

text \<open>
  The array has \<open>ceil((stop - start) / step)\<close> elements (none when that is not positive),
  element \<open>k\<close> being \<open>start + k * step\<close>; a zero step raises \<^verbatim>\<open>ZeroDivisionError\<close>.
  numpy holds the elements as 64-bit integers and computes the length from the quotient
  as a double. The model computes with \<open>int\<close> and agrees with numpy where both are
  exact: a stop below \<open>2 ^ 53\<close> in absolute value and a step below \<open>2 ^ 63\<close>. Beyond
  that numpy returns other numbers (floats from \<open>2 ^ 63\<close> on), so the theorems about
  the values of the indices carry these bounds.
\<close>

definition arange :: "int \<Rightarrow> int \<Rightarrow> int \<Rightarrow> error + int list" where
  "arange start stop step =
     (if step = 0 then Inl ZeroDivisionError
      else Inr (map (\<lambda>k. start + int k * step) [0..<nat (- ((start - stop) div step))]))"

subsection \<open>String operations\<close>

text \<open>\<^verbatim>\<open>s.split(c)\<close> for a one-character separator: never the empty list.\<close>

fun split_on :: "char \<Rightarrow> string \<Rightarrow> string list" where
  "split_on c [] = [[]]"
| "split_on c (x # xs) =
     (if x = c then [] # split_on c xs
      else (case split_on c xs of
              [] \<Rightarrow> [[x]]
            | w # ws \<Rightarrow> (x # w) # ws))"

text \<open>\<^verbatim>\<open>sep.join(xs)\<close>.\<close>

fun join :: "string \<Rightarrow> string list \<Rightarrow> string" where
  "join sep [] = []"
| "join sep [x] = x"
| "join sep (x # y # ys) = x @ sep @ join sep (y # ys)"

text \<open>
  \<^verbatim>\<open>s.replace(old, new)\<close>: every occurrence of \<open>old\<close>, found from left to right
  without overlap, becomes \<open>new\<close>; an empty \<open>old\<close> matches before every character and
  at the end.
\<close>

fun replace_from :: "string \<Rightarrow> string \<Rightarrow> string \<Rightarrow> string" where
  "replace_from old new [] = []"
| "replace_from old new (c # cs) =
     (if prefix old (c # cs) then new @ replace_from old new (drop (length old - 1) cs)
      else c # replace_from old new cs)"

definition replace :: "string \<Rightarrow> string \<Rightarrow> string \<Rightarrow> string" where
  "replace old new s =
     (if old = [] then new @ concat (map (\<lambda>c. c # new) s) else replace_from old new s)"

text \<open>\<^verbatim>\<open>os.path.basename(p)\<close>: what follows the last slash.\<close>

definition basename :: "string \<Rightarrow> string" where
  "basename p = last (split_on (CHR ''/'') p)"

section \<open>Run 1: the command-generation loop\<close>

text \<open>
  \<^verbatim>\<open>
  for istart in np.arange(0, total_num, batch):
      cmd = f'source activate SE3; python ../../hallucination/hallucinate.py --pdb={ref_pdb} --out={outdir}{run_name} '\
            f'--mask={mask} --steps=g600 --num={batch} --start_num={istart} '\
            f'--w_rog=1 --rog_thresh=16 --w_rep 2 --rep_pdb input/pdl1.pdb --rep_sigma 4 '\
            f'--save_pdb=True --track_step 10 '\
            f'&>> {outdir}{run_name}_{istart}.log'
      print(cmd)
  \<close>
  A job is the tuple of values that the f-string interpolates; \<open>run1_cmd\<close> is the f-string.
  The generator run with \<^verbatim>\<open>--num=n --start_num=s\<close> writes the designs numbered
  \<open>s, ..., s + n - 1\<close>, which is \<open>idx_range\<close>.
\<close>

record job =
  pdb :: string
  out :: string
  mask_arg :: string
  num :: int
  start_num :: int
  logfile :: string

definition run1_job :: "string \<Rightarrow> string \<Rightarrow> string \<Rightarrow> string \<Rightarrow> int \<Rightarrow> int \<Rightarrow> job" where
  "run1_job ref_pdb outdir run_name mask_str batch istart =
     \<lparr>pdb = ref_pdb, out = outdir @ run_name, mask_arg = mask_str, num = batch,
      start_num = istart, logfile = outdir @ run_name @ ''_'' @ str_int istart @ ''.log''\<rparr>"

definition run1_cmd :: "job \<Rightarrow> string" where
  "run1_cmd j =
     ''source activate SE3; python ../../hallucination/hallucinate.py --pdb='' @ pdb j
       @ '' --out='' @ out j @ '' ''
       @ ''--mask='' @ mask_arg j @ '' --steps=g600 --num='' @ str_int (num j)
       @ '' --start_num='' @ str_int (start_num j) @ '' ''
       @ ''--w_rog=1 --rog_thresh=16 --w_rep 2 --rep_pdb input/pdl1.pdb --rep_sigma 4 ''
       @ ''--save_pdb=True --track_step 10 ''
       @ ''&>> '' @ logfile j"

definition run1_jobs ::
  "string \<Rightarrow> string \<Rightarrow> string \<Rightarrow> string \<Rightarrow> int \<Rightarrow> int \<Rightarrow> error + job list" where
  "run1_jobs ref_pdb outdir run_name mask_str total_num batch =
     (case arange 0 total_num batch of
        Inl e \<Rightarrow> Inl e
      | Inr istarts \<Rightarrow> Inr (map (run1_job ref_pdb outdir run_name mask_str batch) istarts))"

definition run1 ::
  "string \<Rightarrow> string \<Rightarrow> string \<Rightarrow> string \<Rightarrow> int \<Rightarrow> int \<Rightarrow> error + string list" where
  "run1 ref_pdb outdir run_name mask_str total_num batch =
     (case run1_jobs ref_pdb outdir run_name mask_str total_num batch of
        Inl e \<Rightarrow> Inl e
      | Inr js \<Rightarrow> Inr (map run1_cmd js))"

definition idx_range :: "job \<Rightarrow> int set" where
  "idx_range j = {start_num j ..< start_num j + num j}"

section \<open>The hit filter\<close>

text \<open>
  \<^verbatim>\<open>
  hits = df[(df['af2_lddt']>60) & (df['contig_rmsd_af2']<1.5) & (df['rog']<16)]
  hits.shape
  \<close>
  The metric columns are float64 columns read from a csv file. A finite double is a
  rational number and the comparison of two doubles is exact, so a cell is a real number,
  an infinity or NaN; every comparison with NaN is false. The thresholds \<open>60\<close>,
  \<open>1.5\<close> and \<open>16\<close> are doubles exactly. The table is the list of its rows, in order; a
  row has the columns that the notebook reads.
\<close>

datatype float64 = Fin real | PosInf | NegInf | NaN

fun f64_gt :: "float64 \<Rightarrow> real \<Rightarrow> bool" where
  "f64_gt (Fin x) t = (t < x)"
| "f64_gt PosInf t = True"
| "f64_gt NegInf t = False"
| "f64_gt NaN t = False"

fun f64_lt :: "float64 \<Rightarrow> real \<Rightarrow> bool" where
  "f64_lt (Fin x) t = (x < t)"
| "f64_lt PosInf t = False"
| "f64_lt NegInf t = True"
| "f64_lt NaN t = False"

record metrics_row =
  name :: string
  folder :: string
  af2_lddt :: float64
  contig_rmsd_af2 :: float64
  rog :: float64

type_synonym dataframe = "metrics_row list"

text \<open>\<^verbatim>\<open>df[c] > t\<close> and \<^verbatim>\<open>df[c] < t\<close>: one boolean per row.\<close>

definition col_gt :: "(metrics_row \<Rightarrow> float64) \<Rightarrow> real \<Rightarrow> dataframe \<Rightarrow> bool list" where
  "col_gt c t df = map (\<lambda>r. f64_gt (c r) t) df"

definition col_lt :: "(metrics_row \<Rightarrow> float64) \<Rightarrow> real \<Rightarrow> dataframe \<Rightarrow> bool list" where
  "col_lt c t df = map (\<lambda>r. f64_lt (c r) t) df"

text \<open>\<^verbatim>\<open>m1 & m2\<close> on two boolean columns of the same table.\<close>

definition mask_and :: "bool list \<Rightarrow> bool list \<Rightarrow> bool list" where
  "mask_and m1 m2 = map (\<lambda>(a, b). a \<and> b) (zip m1 m2)"

text \<open>\<^verbatim>\<open>df[m]\<close>: the rows whose boolean is true, in the order of the table.\<close>

definition bool_index :: "'a list \<Rightarrow> bool list \<Rightarrow> 'a list" where
  "bool_index df m = map fst (filter snd (zip df m))"

text \<open>
  The filter with its three thresholds as parameters (the notebook lowers them by hand
  until a design passes), and the filter of the cell.
\<close>

definition select_hits :: "real \<Rightarrow> real \<Rightarrow> real \<Rightarrow> dataframe \<Rightarrow> dataframe" where
  "select_hits t_lddt t_rmsd t_rog df =
     bool_index df
       (mask_and (mask_and (col_gt af2_lddt t_lddt df) (col_lt contig_rmsd_af2 t_rmsd df))
                 (col_lt rog t_rog df))"

definition hits :: "dataframe \<Rightarrow> dataframe" where
  "hits df = select_hits 60 (3 / 2) 16 df"


text \<open>The predicate that the three comparisons express for one row.\<close>

definition passes :: "real \<Rightarrow> real \<Rightarrow> real \<Rightarrow> metrics_row \<Rightarrow> bool" where
  "passes t_lddt t_rmsd t_rog r =
     (f64_gt (af2_lddt r) t_lddt \<and> f64_lt (contig_rmsd_af2 r) t_rmsd \<and> f64_lt (rog r) t_rog)"



subsection \<open>The selection that the specification describes\<close>

text \<open>
  This definition follows the words of the specification, not the notebook: a predicate
  is a column, a comparison and a threshold, and the hit set of an ordered list of
  predicates is the rows of the table that satisfy all of them, in the order of the
  table. It is what the claims about an arbitrary list of predicates are measured
  against.
\<close>

datatype comparison = Greater | Less

type_synonym predicate = "(metrics_row \<Rightarrow> float64) \<times> comparison \<times> real"

fun spec_holds :: "predicate \<Rightarrow> metrics_row \<Rightarrow> bool" where
  "spec_holds (c, Greater, t) r = f64_gt (c r) t"
| "spec_holds (c, Less, t) r = f64_lt (c r) t"

definition spec_hit_rows :: "predicate list \<Rightarrow> dataframe \<Rightarrow> dataframe" where
  "spec_hit_rows ps df = filter (\<lambda>r. list_all (\<lambda>p. spec_holds p r) ps) df"

section \<open>Files and the promotion loop\<close>

text \<open>
  A file system gives the content of the file at a path. A content is either a pickled
  dictionary (the \<^verbatim>\<open>.trb\<close> metadata, of which only string-valued entries are
  read) or other data. Directories are not modelled: each cell creates its output
  directory with \<^verbatim>\<open>os.makedirs(..., exist_ok=True)\<close> before its loop, and
  there are no symbolic links.
\<close>

datatype content = Pickle "string \<Rightarrow> string option" | Data string

type_synonym fs = "string \<Rightarrow> content option"

text \<open>
  Two spellings can name one file: \<^verbatim>\<open>trf_relax//x.pdb\<close> is
  \<^verbatim>\<open>trf_relax/x.pdb\<close> and \<^verbatim>\<open>trf_relax/../x.trb\<close> is \<^verbatim>\<open>x.trb\<close>.
  \<open>normpath\<close> is the spelling without empty components, \<^verbatim>\<open>.\<close> and
  \<^verbatim>\<open>name/..\<close>, computed as \<^verbatim>\<open>os.path.normpath\<close> computes it. The promotion
  loop writes files, and what it writes under one spelling is read under every other, so
  for that loop the file system is keyed by normalised paths and every access
  normalises. Run 2 only reads, one path per parent, and applies the file system to the
  path as \<^verbatim>\<open>np.load\<close> is given it; reading a keyed file system \<open>files\<close> through
  spellings is \<open>view files\<close>.
\<close>

definition norm_step :: "bool \<Rightarrow> string list \<Rightarrow> string \<Rightarrow> string list" where
  "norm_step rooted new_comps part =
     (if part = [] \<or> part = ''.'' then new_comps
      else if part = ''..'' then
        (if new_comps = [] then (if rooted then [] else [part])
         else if last new_comps = ''..'' then new_comps @ [part]
         else butlast new_comps)
      else new_comps @ [part])"

definition normpath :: "string \<Rightarrow> string" where
  "normpath p =
     (if p = [] then ''.''
      else
        (let slashes = (if prefix ''//'' p \<and> \<not> prefix ''///'' p then ''//''
                        else if prefix ''/'' p then ''/'' else []);
             comps = foldl (norm_step (slashes \<noteq> [])) [] (split_on (CHR ''/'') p);
             q = slashes @ join ''/'' comps
         in if q = [] then ''.'' else q))"

definition view :: "fs \<Rightarrow> fs" where
  "view files p = files (normpath p)"

text \<open>
  \<^verbatim>\<open>shutil.copyfile(src, dst)\<close>: a missing source raises
  \<^verbatim>\<open>FileNotFoundError\<close> with the path as it was given, copying a file onto
  itself (under any two spellings) raises \<^verbatim>\<open>SameFileError\<close>, otherwise the
  destination gets the content of the source.
\<close>

definition copyfile :: "string \<Rightarrow> string \<Rightarrow> fs \<Rightarrow> error + fs" where
  "copyfile src dst files =
     (case files (normpath src) of
        None \<Rightarrow> Inl (FileNotFoundError src)
      | Some c \<Rightarrow>
          if normpath src = normpath dst then Inl SameFileError
          else Inr (files(normpath dst \<mapsto> c)))"

text \<open>
  A sequence of copies, as the statements of a loop body and the iterations of a loop
  run them: the first exception ends the sequence and leaves the files copied so far.
\<close>

fun copy_all :: "(string \<times> string) list \<Rightarrow> fs \<Rightarrow> fs \<times> error option" where
  "copy_all [] files = (files, None)"
| "copy_all ((src, dst) # cs) files =
     (case copyfile src dst files of
        Inl e \<Rightarrow> (files, Some e)
      | Inr files' \<Rightarrow> copy_all cs files')"

text \<open>
  \<^verbatim>\<open>
  for i,row in hits.iterrows():
      shutil.copyfile(row['folder']+'/'+row['name']+'.pdb', outdir+row['name']+'.pdb')
      shutil.copyfile(row['folder']+'af2/'+row['name']+'.pdb', outdir+'af2/'+row['name']+'_af2pred.pdb')
      shutil.copyfile(row['folder']+'../'+row['name']+'.trb', outdir+row['name']+'.trb')
      shutil.copyfile(row['folder']+'../'+row['name']+'.fas', outdir+row['name']+'.fas')
  \<close>
\<close>

definition row_copies :: "string \<Rightarrow> metrics_row \<Rightarrow> (string \<times> string) list" where
  "row_copies outdir row =
     [(folder row @ ''/'' @ name row @ ''.pdb'', outdir @ name row @ ''.pdb''),
      (folder row @ ''af2/'' @ name row @ ''.pdb'', outdir @ ''af2/'' @ name row @ ''_af2pred.pdb''),
      (folder row @ ''../'' @ name row @ ''.trb'', outdir @ name row @ ''.trb''),
      (folder row @ ''../'' @ name row @ ''.fas'', outdir @ name row @ ''.fas'')]"

definition promote :: "string \<Rightarrow> dataframe \<Rightarrow> fs \<Rightarrow> fs \<times> error option" where
  "promote outdir hit_rows files = copy_all (concat (map (row_copies outdir) hit_rows)) files"

section \<open>Run 2: commands derived from the parent designs\<close>

subsection \<open>Reading the metadata of a parent design\<close>

text \<open>
  \<^verbatim>\<open>np.load(p, allow_pickle=True)\<close> and \<^verbatim>\<open>d[k]\<close>. A file that is not a
  pickle raises \<^verbatim>\<open>EOFError\<close> when it is empty and
  \<^verbatim>\<open>UnpicklingError\<close> otherwise.
\<close>

definition np_load :: "fs \<Rightarrow> string \<Rightarrow> error + (string \<Rightarrow> string option)" where
  "np_load files p =
     (case files p of
        None \<Rightarrow> Inl (FileNotFoundError p)
      | Some (Data d) \<Rightarrow> Inl (if d = [] then EOFError else UnpicklingError)
      | Some (Pickle d) \<Rightarrow> Inr d)"

definition getitem :: "(string \<Rightarrow> string option) \<Rightarrow> string \<Rightarrow> error + string" where
  "getitem d k = (case d k of None \<Rightarrow> Inl (KeyError k) | Some v \<Rightarrow> Inr v)"

text \<open>
  \<^verbatim>\<open>[x for x in segs if x[0]=='A']\<close>: \<^verbatim>\<open>x[0]\<close> of an empty string raises
  \<^verbatim>\<open>IndexError\<close>.
\<close>

fun keep_chain_A :: "string list \<Rightarrow> error + string list" where
  "keep_chain_A [] = Inr []"
| "keep_chain_A (x # xs) =
     (case x of
        [] \<Rightarrow> Inl IndexError
      | c # _ \<Rightarrow>
          (case keep_chain_A xs of
             Inl e \<Rightarrow> Inl e
           | Inr ys \<Rightarrow> Inr (if c = CHR ''A'' then x # ys else ys)))"

subsection \<open>The loop\<close>

text \<open>
  \<^verbatim>\<open>
  for istart in np.arange(0, total_num, batch):
      for fn in parent_designs:
          name = os.path.basename(fn.replace('.pdb',''))
          trb = np.load(fn.replace('.pdb','.trb'),allow_pickle=True) # metadata about parent design
          mask = trb['sampled_mask']
          contigs = ','.join([x for x in trb['sampled_mask'].split(',') if x[0]=='A'])
          run_name = name+'_'+run
          cmd = f'source activate SE3; python ../../hallucination/hallucinate.py '\
                f'--pdb={ref_pdb} --out={outdir}{run_name} '\
                f'--steps m300 --num={batch} --start_num={istart} '\
                f'--mask {mask} --use_template {contigs} '\
                f'--spike_fas {fn.replace(".pdb",".fas")} --spike 0.999 '\
                f'--force_aa {force_aa} --exclude_aa C '\
                f'--receptor {receptor} --rec_placement second '\
                f'--w_rog=1 --rog_thresh=16 '\
                f'--save_pdb=True --track_step 1 '\
                f'&>> {outdir}{run_name}_{istart}.log'
          print(cmd)
  \<close>
  \<^verbatim>\<open>parent_designs\<close> is the result of \<^verbatim>\<open>glob.glob('output/hits_r1/*pdb')\<close>, a list
  of paths in the order of the directory listing; it is a parameter here. The knobs
  \<^verbatim>\<open>ref_pdb\<close>, \<^verbatim>\<open>receptor\<close>, \<^verbatim>\<open>force_aa\<close>, \<^verbatim>\<open>run\<close> and \<^verbatim>\<open>outdir\<close> are
  variables of the cell, collected in the record \<open>knobs\<close>.
\<close>

record job2 = job +
  use_template :: string
  spike_fas :: string
  force_aa_arg :: string
  receptor_arg :: string

record knobs =
  kn_ref_pdb :: string
  kn_receptor :: string
  kn_force_aa :: string
  kn_run :: string
  kn_outdir :: string

definition run2_job :: "knobs \<Rightarrow> int \<Rightarrow> fs \<Rightarrow> int \<Rightarrow> string \<Rightarrow> error + job2" where
  "run2_job kn batch files istart fn =
     (let name = basename (replace ''.pdb'' [] fn) in
      case np_load files (replace ''.pdb'' ''.trb'' fn) of
        Inl e \<Rightarrow> Inl e
      | Inr trb \<Rightarrow>
         (case getitem trb ''sampled_mask'' of
            Inl e \<Rightarrow> Inl e
          | Inr sampled \<Rightarrow>
             (case keep_chain_A (split_on (CHR '','') sampled) of
                Inl e \<Rightarrow> Inl e
              | Inr segs \<Rightarrow>
                 (let contigs = join '','' segs;
                      run_name = name @ ''_'' @ kn_run kn
                  in Inr \<lparr>pdb = kn_ref_pdb kn, out = kn_outdir kn @ run_name, mask_arg = sampled,
                          num = batch, start_num = istart,
                          logfile = kn_outdir kn @ run_name @ ''_'' @ str_int istart @ ''.log'',
                          use_template = contigs,
                          spike_fas = replace ''.pdb'' ''.fas'' fn,
                          force_aa_arg = kn_force_aa kn,
                          receptor_arg = kn_receptor kn\<rparr>))))"

definition run2_cmd :: "job2 \<Rightarrow> string" where
  "run2_cmd j =
     ''source activate SE3; python ../../hallucination/hallucinate.py ''
       @ ''--pdb='' @ pdb j @ '' --out='' @ out j @ '' ''
       @ ''--steps m300 --num='' @ str_int (num j) @ '' --start_num='' @ str_int (start_num j) @ '' ''
       @ ''--mask '' @ mask_arg j @ '' --use_template '' @ use_template j @ '' ''
       @ ''--spike_fas '' @ spike_fas j @ '' --spike 0.999 ''
       @ ''--force_aa '' @ force_aa_arg j @ '' --exclude_aa C ''
       @ ''--receptor '' @ receptor_arg j @ '' --rec_placement second ''
       @ ''--w_rog=1 --rog_thresh=16 ''
       @ ''--save_pdb=True --track_step 1 ''
       @ ''&>> '' @ logfile j"

text \<open>One iteration of the inner loop: the printed line, or the exception.\<close>

definition run2_step :: "knobs \<Rightarrow> int \<Rightarrow> fs \<Rightarrow> int \<times> string \<Rightarrow> error + string" where
  "run2_step kn batch files it =
     (case run2_job kn batch files (fst it) (snd it) of
        Inl e \<Rightarrow> Inl e
      | Inr j \<Rightarrow> Inr (run2_cmd j))"

text \<open>
  A loop that prints one line per iteration: the lines printed, and the exception that
  ended the loop if there was one.
\<close>

fun print_loop :: "('a \<Rightarrow> error + string) \<Rightarrow> 'a list \<Rightarrow> string list \<times> error option" where
  "print_loop f [] = ([], None)"
| "print_loop f (x # xs) =
     (case f x of
        Inl e \<Rightarrow> ([], Some e)
      | Inr line \<Rightarrow> (case print_loop f xs of (ls, r) \<Rightarrow> (line # ls, r)))"

definition run2 ::
  "knobs \<Rightarrow> int \<Rightarrow> int \<Rightarrow> string list \<Rightarrow> fs \<Rightarrow> string list \<times> error option" where
  "run2 kn total_num batch parent_designs files =
     (case arange 0 total_num batch of
        Inl e \<Rightarrow> ([], Some e)
      | Inr istarts \<Rightarrow>
          print_loop (run2_step kn batch files) (List.product istarts parent_designs))"

subsection \<open>Constraint layouts as the mask strings write them\<close>

text \<open>
  A mask such as \<^verbatim>\<open>25-35,A63-82,15-25,A119-140,0-15\<close> lists segments separated by
  commas: a fixed segment is a chain letter and a residue range, a free segment a range
  of lengths. The sampled mask of a design gives each free segment the length it was
  resolved to, written as a range with equal ends: \<^verbatim>\<open>27-27,A63-82,21-21,A119-140,3-3\<close>.
  The generator that writes the sampled mask is not part of the notebook; the format is
  read off the mask of the run 1 cell and the sampled masks in the commands that the
  run 2 cell printed. A \<open>segment\<close> is a segment of a realized layout.
\<close>

datatype segment = Fixed char nat nat | Gap nat

fun render_segment :: "segment \<Rightarrow> string" where
  "render_segment (Fixed ch lo hi) = ch # str_nat lo @ ''-'' @ str_nat hi"
| "render_segment (Gap n) = str_nat n @ ''-'' @ str_nat n"

definition render_layout :: "segment list \<Rightarrow> string" where
  "render_layout segs = join '','' (map render_segment segs)"

fun is_fixed :: "segment \<Rightarrow> bool" where
  "is_fixed (Fixed ch lo hi) = True"
| "is_fixed (Gap n) = False"

fun on_chain_A :: "segment \<Rightarrow> bool" where
  "on_chain_A (Fixed ch lo hi) = (ch = CHR ''A'')"
| "on_chain_A (Gap n) = True"

section \<open>The data of the tutorial\<close>

text \<open>
  The two hits of the notebook with the metrics it prints (rounded) and a third design,
  a file system after run 1, keyed by normalised paths, in which the metadata file of
  \<^verbatim>\<open>pd1_r1_10\<close> is missing, the metadata of the two promoted hits as run 2 reads
  them, and the knobs of the run 2 cell.
\<close>

definition row10 :: metrics_row where
  "row10 = \<lparr>name = ''pd1_r1_10'', folder = ''output/run1/trf_relax/'', af2_lddt = Fin 69,
             contig_rmsd_af2 = Fin (141 / 100), rog = Fin (138 / 10)\<rparr>"

definition row13 :: metrics_row where
  "row13 = \<lparr>name = ''pd1_r1_13'', folder = ''output/run1/trf_relax/'', af2_lddt = Fin 66,
             contig_rmsd_af2 = Fin (145 / 100), rog = Fin (131 / 10)\<rparr>"

definition row7 :: metrics_row where
  "row7 = \<lparr>name = ''pd1_r1_7'', folder = ''output/run1/trf_relax/'', af2_lddt = Fin 52,
            contig_rmsd_af2 = Fin (9 / 10), rog = Fin (171 / 10)\<rparr>"

definition run1_files :: fs where
  "run1_files =
     [''output/run1/trf_relax/pd1_r1_10.pdb'' \<mapsto> Data ''model 10'',
      ''output/run1/trf_relax/af2/pd1_r1_10.pdb'' \<mapsto> Data ''af2 model 10'',
      ''output/run1/pd1_r1_10.fas'' \<mapsto> Data ''sequence 10'',
      ''output/run1/trf_relax/pd1_r1_13.pdb'' \<mapsto> Data ''model 13'',
      ''output/run1/trf_relax/af2/pd1_r1_13.pdb'' \<mapsto> Data ''af2 model 13'',
      ''output/run1/pd1_r1_13.trb'' \<mapsto>
          Pickle [''sampled_mask'' \<mapsto> ''27-27,A63-82,21-21,A119-140,3-3''],
      ''output/run1/pd1_r1_13.fas'' \<mapsto> Data ''sequence 13'',
      ''output/run1/trf_relax/pd1_r1_7.pdb'' \<mapsto> Data ''model 7'',
      ''output/run1/trf_relax/af2/pd1_r1_7.pdb'' \<mapsto> Data ''af2 model 7'',
      ''output/run1/pd1_r1_7.trb'' \<mapsto>
          Pickle [''sampled_mask'' \<mapsto> ''31-31,A63-82,18-18,A119-140,9-9''],
      ''output/run1/pd1_r1_7.fas'' \<mapsto> Data ''sequence 7'']"

definition hits_files :: fs where
  "hits_files =
     [''output/hits_r1/pd1_r1_13.trb'' \<mapsto>
          Pickle [''sampled_mask'' \<mapsto> ''27-27,A63-82,21-21,A119-140,3-3''],
      ''output/hits_r1/pd1_r1_10.trb'' \<mapsto>
          Pickle [''sampled_mask'' \<mapsto> ''29-29,A63-82,16-16,A119-140,7-7'']]"

definition tutorial_knobs :: knobs where
  "tutorial_knobs =
     \<lparr>kn_ref_pdb = ''input/pd1.pdb'', kn_receptor = ''input/pdl1_trunc.pdb'',
      kn_force_aa = ''A64,A66,A68,A70,A73-81,A123-124,A127,A128,A132-136,A139'',
      kn_run = ''r2'', kn_outdir = ''output/run2/''\<rparr>"

section \<open>Properties of the run 1 loop\<close>

lemma arange_pos:
  "step \<noteq> 0 \<Longrightarrow>
     arange start stop step =
       Inr (map (\<lambda>k. start + int k * step) [0..<nat (- ((start - stop) div step))])"
  by (simp add: arange_def)

lemma run1_jobs_eq:
  "batch \<noteq> 0 \<Longrightarrow>
     run1_jobs ref_pdb outdir run_name mask_str total_num batch =
       Inr (map (\<lambda>k. run1_job ref_pdb outdir run_name mask_str batch (int k * batch))
              [0..<nat (- ((- total_num) div batch))])"
  by (simp add: run1_jobs_def arange_pos comp_def)

lemma blocks_union:
  fixes b :: int
  assumes "0 < b"
  shows "(\<Union>k<n. {int k * b ..< int k * b + b}) = {0 ..< int n * b}"
proof (induction n)
  case 0
  show ?case by simp
next
  case (Suc n)
  have nonneg: "0 \<le> int n * b" using assms by simp
  have "(\<Union>k<Suc n. {int k * b ..< int k * b + b})
          = (\<Union>k<n. {int k * b ..< int k * b + b}) \<union> {int n * b ..< int n * b + b}"
    by (simp add: lessThan_Suc Un_commute)
  also have "\<dots> = {0 ..< int n * b} \<union> {int n * b ..< int n * b + b}"
    by (simp add: Suc.IH)
  also have "\<dots> = {0 ..< int n * b + b}"
    using nonneg assms by (intro ivl_disj_un_two) simp_all
  also have "int n * b + b = int (Suc n) * b"
    by (simp add: algebra_simps)
  finally show ?case .
qed

lemma blocks_disjoint:
  fixes b :: int
  assumes "0 < b" "i \<noteq> k"
  shows "{int i * b ..< int i * b + b} \<inter> {int k * b ..< int k * b + b} = {}"
proof -
  have step: "int x * b + b \<le> int y * b" if "x < y" for x y :: nat
  proof -
    from that have "int x + 1 \<le> int y" by simp
    then have "(int x + 1) * b \<le> int y * b"
      using assms(1) by (intro mult_right_mono) simp_all
    then show ?thesis by (simp add: algebra_simps)
  qed
  from assms(2) consider "i < k" | "k < i" by linarith
  then show ?thesis
  proof cases
    case 1
    from step [OF 1] show ?thesis by auto
  next
    case 2
    from step [OF 2] show ?thesis by auto
  qed
qed

lemma ceil_div_bounds:
  fixes t b :: int
  assumes "0 < b"
  shows "t \<le> (- ((- t) div b)) * b" and "(- ((- t) div b)) * b < t + b"
proof -
  define q where "q = (- t) div b"
  define r where "r = (- t) mod b"
  have eq: "q * b + r = - t"
    unfolding q_def r_def by (rule div_mult_mod_eq)
  have m0: "0 \<le> r" and m1: "r < b"
    using assms by (simp_all add: r_def)
  have "(- q) * b = - (q * b)" by simp
  with eq have "(- q) * b = t + r" by linarith
  then show "t \<le> (- ((- t) div b)) * b" and "(- ((- t) div b)) * b < t + b"
    using m0 m1 unfolding q_def by linarith+
qed

lemma ceil_div_exact:
  fixes t b :: int
  assumes "0 < b"
  shows "(- ((- t) div b)) * b = t \<longleftrightarrow> b dvd t"
proof
  assume "(- ((- t) div b)) * b = t"
  then have "t = b * (- ((- t) div b))" by (simp add: mult.commute)
  then show "b dvd t" by (rule dvdI)
next
  assume "b dvd t"
  then have "b dvd - t" by simp
  then have "((- t) div b) * b = - t" by simp
  then show "(- ((- t) div b)) * b = t" by simp
qed

lemma idx_range_run1_job [simp]:
  "idx_range (run1_job ref_pdb outdir run_name mask_str batch istart) = {istart ..< istart + batch}"
  by (simp add: idx_range_def run1_job_def)

lemma start_num_run1_job [simp]:
  "start_num (run1_job ref_pdb outdir run_name mask_str batch istart) = istart"
  by (simp add: run1_job_def)

lemma num_run1_job [simp]:
  "num (run1_job ref_pdb outdir run_name mask_str batch istart) = batch"
  by (simp add: run1_job_def)

lemma mask_arg_run1_job [simp]:
  "mask_arg (run1_job ref_pdb outdir run_name mask_str batch istart) = mask_str"
  by (simp add: run1_job_def)

text \<open>The commands that the cell prints for the values in the notebook.\<close>

lemma run1_tutorial_commands:
  "run1 ''input/pd1.pdb'' ''output/run1/'' ''pd1_r1'' ''25-35,A63-82,15-25,A119-140,0-15'' 20 5 =
     Inr [''source activate SE3; python ../../hallucination/hallucinate.py --pdb=input/pd1.pdb --out=output/run1/pd1_r1 --mask=25-35,A63-82,15-25,A119-140,0-15 --steps=g600 --num=5 --start_num=0 --w_rog=1 --rog_thresh=16 --w_rep 2 --rep_pdb input/pdl1.pdb --rep_sigma 4 --save_pdb=True --track_step 10 &>> output/run1/pd1_r1_0.log'',
          ''source activate SE3; python ../../hallucination/hallucinate.py --pdb=input/pd1.pdb --out=output/run1/pd1_r1 --mask=25-35,A63-82,15-25,A119-140,0-15 --steps=g600 --num=5 --start_num=5 --w_rog=1 --rog_thresh=16 --w_rep 2 --rep_pdb input/pdl1.pdb --rep_sigma 4 --save_pdb=True --track_step 10 &>> output/run1/pd1_r1_5.log'',
          ''source activate SE3; python ../../hallucination/hallucinate.py --pdb=input/pd1.pdb --out=output/run1/pd1_r1 --mask=25-35,A63-82,15-25,A119-140,0-15 --steps=g600 --num=5 --start_num=10 --w_rog=1 --rog_thresh=16 --w_rep 2 --rep_pdb input/pdl1.pdb --rep_sigma 4 --save_pdb=True --track_step 10 &>> output/run1/pd1_r1_10.log'',
          ''source activate SE3; python ../../hallucination/hallucinate.py --pdb=input/pd1.pdb --out=output/run1/pd1_r1 --mask=25-35,A63-82,15-25,A119-140,0-15 --steps=g600 --num=5 --start_num=15 --w_rog=1 --rog_thresh=16 --w_rep 2 --rep_pdb input/pdl1.pdb --rep_sigma 4 --save_pdb=True --track_step 10 &>> output/run1/pd1_r1_15.log'']"
  by (simp add: run1_def run1_jobs_def arange_def upt_rec run1_job_def run1_cmd_def
      str_int_def str_nat.simps digit_char_def)

section \<open>Claims about the run 1 loop\<close>

text \<open>
  Claim C1, at an input that refutes it as stated. With \<open>total_num = 22\<close> and
  \<open>batch = 5\<close> the loop emits five jobs starting at 0, 5, 10, 15 and 20, each with
  \<^verbatim>\<open>--num=5\<close>: the count of the last job is 5 and not \<open>22 mod 5 = 2\<close>, and its index
  range reaches 24, outside \<open>[0, 22)\<close>.
\<close>

theorem run1_last_count_counterexample:
  "run1_jobs ''input/pd1.pdb'' ''output/run1/'' ''pd1_r1'' ''25-35,A63-82'' 22 5
     = Inr (map (run1_job ''input/pd1.pdb'' ''output/run1/'' ''pd1_r1'' ''25-35,A63-82'' 5) [0, 5, 10, 15, 20])
   \<and> num (run1_job ''input/pd1.pdb'' ''output/run1/'' ''pd1_r1'' ''25-35,A63-82'' 5 20) \<noteq> 22 mod 5
   \<and> (24::int) \<in> idx_range (run1_job ''input/pd1.pdb'' ''output/run1/'' ''pd1_r1'' ''25-35,A63-82'' 5 20)
   \<and> (24::int) \<notin> {0 ..< 22}"
  by (simp add: run1_jobs_def arange_def upt_rec)

text \<open>
  Claim C1, as the loop has it. For \<open>0 < total_num < 2 ^ 53\<close> and
  \<open>0 < batch < 2 ^ 63\<close> the loop emits \<open>ceil(total_num / batch)\<close> jobs; job \<open>k\<close> starts
  at index \<open>k * batch\<close>; the index ranges are pairwise disjoint and leave no index of
  \<open>[0, total_num)\<close> out; when \<open>batch\<close> divides \<open>total_num\<close> there are
  \<open>total_num / batch\<close> jobs, each with count \<open>batch\<close>, and the union of the ranges is
  exactly \<open>[0, total_num)\<close>; and for \<open>total_num = 20\<close>, \<open>batch = 5\<close> there are exactly
  four jobs with start indices 0, 5, 10, 15 and counts 5, 5, 5, 5. Nothing is stated
  about the count of the last job when \<open>batch\<close> does not divide \<open>total_num\<close>.
\<close>

theorem run1_index_ranges:
  assumes "0 < total_num" and "total_num < 2 ^ 53" and "0 < batch" and "batch < 2 ^ 63"
  shows "\<exists>js. run1_jobs ref_pdb outdir run_name mask_str total_num batch = Inr js
     \<and> length js = nat (- ((- total_num) div batch))
     \<and> (\<forall>k<length js. start_num (js ! k) = int k * batch)
     \<and> (\<forall>i<length js. \<forall>k<length js. i \<noteq> k \<longrightarrow> idx_range (js ! i) \<inter> idx_range (js ! k) = {})
     \<and> {0 ..< total_num} \<subseteq> \<Union> (idx_range ` set js)
     \<and> (batch dvd total_num \<longrightarrow>
           length js = nat (total_num div batch)
           \<and> (\<forall>j\<in>set js. num j = batch)
           \<and> \<Union> (idx_range ` set js) = {0 ..< total_num})
     \<and> map_sum id (map (\<lambda>j. (start_num j, num j))) (run1_jobs ref_pdb outdir run_name mask_str 20 5)
           = Inr [(0, 5), (5, 5), (10, 5), (15, 5)]"
proof -
  define n where "n = nat (- ((- total_num) div batch))"
  define js where
    "js = map (\<lambda>k. run1_job ref_pdb outdir run_name mask_str batch (int k * batch)) [0..<n]"
  have b0: "batch \<noteq> 0" using assms(3) by simp
  have run: "run1_jobs ref_pdb outdir run_name mask_str total_num batch = Inr js"
    unfolding js_def n_def by (rule run1_jobs_eq [OF b0])
  have len: "length js = n" by (simp add: js_def)
  have nth: "js ! k = run1_job ref_pdb outdir run_name mask_str batch (int k * batch)" if "k < n" for k
    using that by (simp add: js_def)
  have starts: "\<forall>k<length js. start_num (js ! k) = int k * batch"
    by (simp add: len nth)
  have counts: "\<forall>j\<in>set js. num j = batch"
    by (auto simp: js_def)
  have disj: "\<forall>i<length js. \<forall>k<length js. i \<noteq> k \<longrightarrow> idx_range (js ! i) \<inter> idx_range (js ! k) = {}"
  proof (intro allI impI)
    fix i k assume "i < length js" "k < length js" "i \<noteq> k"
    then have "js ! i = run1_job ref_pdb outdir run_name mask_str batch (int i * batch)"
      and "js ! k = run1_job ref_pdb outdir run_name mask_str batch (int k * batch)"
      by (simp_all add: len nth)
    then show "idx_range (js ! i) \<inter> idx_range (js ! k) = {}"
      using blocks_disjoint [OF assms(3) \<open>i \<noteq> k\<close>] by (simp only: idx_range_run1_job)
  qed
  have "\<Union> (idx_range ` set js) = (\<Union>k<n. {int k * batch ..< int k * batch + batch})"
    by (auto simp: js_def)
  then have un: "\<Union> (idx_range ` set js) = {0 ..< int n * batch}"
    by (simp add: blocks_union [OF assms(3)])
  have nn: "0 \<le> - ((- total_num) div batch)"
  proof -
    have "0 < (- ((- total_num) div batch)) * batch"
      using ceil_div_bounds(1) [OF assms(3), of total_num] assms(1) by linarith
    then have "0 < - ((- total_num) div batch)"
      using assms(3) by (auto simp only: zero_less_mult_iff)
    then show ?thesis by simp
  qed
  then have nb: "int n * batch = (- ((- total_num) div batch)) * batch"
    by (simp add: n_def)
  have cover: "{0 ..< total_num} \<subseteq> \<Union> (idx_range ` set js)"
    using ceil_div_bounds(1) [OF assms(3), of total_num] by (simp add: un nb)
  have exact: "length js = nat (total_num div batch)
           \<and> (\<forall>j\<in>set js. num j = batch)
           \<and> \<Union> (idx_range ` set js) = {0 ..< total_num}" if d: "batch dvd total_num"
  proof -
    from d have "(- total_num) div batch = - (total_num div batch)"
      by (simp add: dvd_neg_div)
    then have l: "length js = nat (total_num div batch)"
      by (simp add: len n_def)
    from d have "int n * batch = total_num"
      unfolding nb by (simp only: ceil_div_exact [OF assms(3)])
    then have "\<Union> (idx_range ` set js) = {0 ..< total_num}"
      by (simp only: un)
    with l counts show ?thesis by blast
  qed
  have scen: "map_sum id (map (\<lambda>j. (start_num j, num j))) (run1_jobs ref_pdb outdir run_name mask_str 20 5)
           = Inr [(0, 5), (5, 5), (10, 5), (15, 5)]"
    by (simp add: run1_jobs_def arange_def upt_rec)
  have len': "length js = nat (- ((- total_num) div batch))"
    by (simp add: len n_def)
  from exact have exact': "batch dvd total_num \<longrightarrow>
           length js = nat (total_num div batch)
           \<and> (\<forall>j\<in>set js. num j = batch)
           \<and> \<Union> (idx_range ` set js) = {0 ..< total_num}" by blast
  from run len' starts disj cover exact' scen show ?thesis
    by (intro exI [of _ js] conjI)
qed

theorem run1_index_ranges_witness:
  "(0::int) < 20 \<and> (20::int) < 2 ^ 53 \<and> (0::int) < 5 \<and> (5::int) < 2 ^ 63 \<and> (5::int) dvd 20
   \<and> (\<exists>js. run1_jobs ''input/pd1.pdb'' ''output/run1/'' ''pd1_r1'' ''25-35,A63-82,15-25,A119-140,0-15'' 20 5 = Inr js
     \<and> length js = 4
     \<and> (\<forall>j\<in>set js. num j = 5)
     \<and> \<Union> (idx_range ` set js) = {0 ..< 20})"
proof -
  have h: "(0::int) < 20" "(20::int) < 2 ^ 53" "(0::int) < 5" "(5::int) < 2 ^ 63" by simp_all
  have d: "(5::int) dvd 20" by simp
  from run1_index_ranges [OF h, of "''input/pd1.pdb''" "''output/run1/''" "''pd1_r1''"
      "''25-35,A63-82,15-25,A119-140,0-15''"] d
  have "\<exists>js. run1_jobs ''input/pd1.pdb'' ''output/run1/'' ''pd1_r1'' ''25-35,A63-82,15-25,A119-140,0-15'' 20 5 = Inr js
     \<and> length js = 4
     \<and> (\<forall>j\<in>set js. num j = 5)
     \<and> \<Union> (idx_range ` set js) = {0 ..< 20}"
    by auto
  with h d show ?thesis by blast
qed




section \<open>Claims about the hit filter\<close>

lemma bool_index_map: "bool_index df (map P df) = filter P df"
  by (induction df) (simp_all add: bool_index_def)

lemma mask_and_map: "mask_and (map P df) (map Q df) = map (\<lambda>r. P r \<and> Q r) df"
  by (induction df) (simp_all add: mask_and_def)

lemma select_hits_filter: "select_hits a b c df = filter (passes a b c) df"
proof -
  have "mask_and (mask_and (col_gt af2_lddt a df) (col_lt contig_rmsd_af2 b df)) (col_lt rog c df)
          = map (passes a b c) df"
    by (simp add: col_gt_def col_lt_def mask_and_map passes_def conj_assoc)
  then show ?thesis
    by (simp add: select_hits_def bool_index_map)
qed

lemma passes_mono:
  assumes "a' \<le> a" "b \<le> b'" "c \<le> c'" "passes a b c r"
  shows "passes a' b' c' r"
proof -
  have gt: "f64_gt x a \<Longrightarrow> f64_gt x a'" for x using assms(1) by (cases x) simp_all
  have lt1: "f64_lt x b \<Longrightarrow> f64_lt x b'" for x using assms(2) by (cases x) simp_all
  have lt2: "f64_lt x c \<Longrightarrow> f64_lt x c'" for x using assms(3) by (cases x) simp_all
  from assms(4) show ?thesis by (auto simp: passes_def gt lt1 lt2)
qed

lemma subseq_filter_mono:
  assumes "\<And>x. P x \<Longrightarrow> Q x"
  shows "subseq (filter P xs) (filter Q xs)"
proof -
  have "filter P (filter Q xs) = filter P xs"
    using assms by (auto intro: filter_cong)
  moreover have "subseq (filter P (filter Q xs)) (filter Q xs)"
    by (rule subseq_filter_left)
  ultimately show ?thesis by simp
qed

lemma spec_hit_rows_triple:
  "spec_hit_rows [(af2_lddt, Greater, a), (contig_rmsd_af2, Less, b), (rog, Less, c)] df
     = filter (passes a b c) df"
  by (simp add: spec_hit_rows_def passes_def [abs_def])

text \<open>
  Claim C3, at inputs that refute it as stated. The expression of the cell has its
  columns and comparisons fixed, so it does not compute the hit set of every list of
  predicates: no choice of its three thresholds selects the rows with \<open>rog > 14\<close> of a
  table whose two rows differ in \<open>rog\<close> only, and none keeps the row that the one
  predicate \<open>af2_lddt > 60\<close> keeps when its \<open>contig_rmsd_af2\<close> is missing.
\<close>

theorem hit_filter_not_configurable_counterexample:
  "\<not> (\<exists>a b c.
        select_hits a b c
          [\<lparr>name = ''d1'', folder = ''f'', af2_lddt = Fin 70, contig_rmsd_af2 = Fin 1, rog = Fin 13\<rparr>,
           \<lparr>name = ''d2'', folder = ''f'', af2_lddt = Fin 70, contig_rmsd_af2 = Fin 1, rog = Fin 15\<rparr>]
        = spec_hit_rows [(rog, Greater, 14)]
          [\<lparr>name = ''d1'', folder = ''f'', af2_lddt = Fin 70, contig_rmsd_af2 = Fin 1, rog = Fin 13\<rparr>,
           \<lparr>name = ''d2'', folder = ''f'', af2_lddt = Fin 70, contig_rmsd_af2 = Fin 1, rog = Fin 15\<rparr>])
   \<and> \<not> (\<exists>a b c.
        select_hits a b c
          [\<lparr>name = ''d3'', folder = ''f'', af2_lddt = Fin 69, contig_rmsd_af2 = NaN, rog = Fin 13\<rparr>]
        = spec_hit_rows [(af2_lddt, Greater, 60)]
          [\<lparr>name = ''d3'', folder = ''f'', af2_lddt = Fin 69, contig_rmsd_af2 = NaN, rog = Fin 13\<rparr>])"
proof (intro conjI notI)
  assume "\<exists>a b c.
        select_hits a b c
          [\<lparr>name = ''d1'', folder = ''f'', af2_lddt = Fin 70, contig_rmsd_af2 = Fin 1, rog = Fin 13\<rparr>,
           \<lparr>name = ''d2'', folder = ''f'', af2_lddt = Fin 70, contig_rmsd_af2 = Fin 1, rog = Fin 15\<rparr>]
        = spec_hit_rows [(rog, Greater, 14)]
          [\<lparr>name = ''d1'', folder = ''f'', af2_lddt = Fin 70, contig_rmsd_af2 = Fin 1, rog = Fin 13\<rparr>,
           \<lparr>name = ''d2'', folder = ''f'', af2_lddt = Fin 70, contig_rmsd_af2 = Fin 1, rog = Fin 15\<rparr>]"
  then show False
    by (auto simp: select_hits_filter passes_def spec_hit_rows_def split: if_splits)
next
  assume "\<exists>a b c.
        select_hits a b c
          [\<lparr>name = ''d3'', folder = ''f'', af2_lddt = Fin 69, contig_rmsd_af2 = NaN, rog = Fin 13\<rparr>]
        = spec_hit_rows [(af2_lddt, Greater, 60)]
          [\<lparr>name = ''d3'', folder = ''f'', af2_lddt = Fin 69, contig_rmsd_af2 = NaN, rog = Fin 13\<rparr>]"
  then show False
    by (auto simp: select_hits_filter passes_def spec_hit_rows_def split: if_splits)
qed

text \<open>
  Claim C3, as the cell has it. For every table and every choice of the three
  thresholds, the boolean-mask expression returns exactly the rows that satisfy the
  conjunction of \<open>af2_lddt > t1\<close>, \<open>contig_rmsd_af2 < t2\<close> and \<open>rog < t3\<close>, which is
  the hit set that the specification gives this list of three predicates, in the order of
  the table (a subsequence of it); the cell itself is the case 60, 1.5, 16 on every
  table. The rows \<open>{lddt: 69, rmsd: 1.41, rog: 13.8}\<close> and
  \<open>{lddt: 66, rmsd: 1.45, rog: 13.1}\<close> both pass, and a row with \<open>lddt\<close> 52 between
  them is dropped.
\<close>

theorem select_hits_conjunction:
  "select_hits t_lddt t_rmsd t_rog df = filter (passes t_lddt t_rmsd t_rog) df
   \<and> select_hits t_lddt t_rmsd t_rog df
        = spec_hit_rows [(af2_lddt, Greater, t_lddt), (contig_rmsd_af2, Less, t_rmsd), (rog, Less, t_rog)] df
   \<and> subseq (select_hits t_lddt t_rmsd t_rog df) df
   \<and> hits df = filter (passes 60 (3 / 2) 16) df
   \<and> hits df = spec_hit_rows [(af2_lddt, Greater, 60), (contig_rmsd_af2, Less, 3 / 2), (rog, Less, 16)] df
   \<and> hits [\<lparr>name = ''pd1_r1_10'', folder = ''output/run1/trf_relax/'', af2_lddt = Fin 69,
              contig_rmsd_af2 = Fin (141 / 100), rog = Fin (138 / 10)\<rparr>,
            \<lparr>name = ''pd1_r1_13'', folder = ''output/run1/trf_relax/'', af2_lddt = Fin 66,
              contig_rmsd_af2 = Fin (145 / 100), rog = Fin (131 / 10)\<rparr>]
       = [\<lparr>name = ''pd1_r1_10'', folder = ''output/run1/trf_relax/'', af2_lddt = Fin 69,
              contig_rmsd_af2 = Fin (141 / 100), rog = Fin (138 / 10)\<rparr>,
            \<lparr>name = ''pd1_r1_13'', folder = ''output/run1/trf_relax/'', af2_lddt = Fin 66,
              contig_rmsd_af2 = Fin (145 / 100), rog = Fin (131 / 10)\<rparr>]
   \<and> hits [row10, row7, row13] = [row10, row13]"
  by (simp add: select_hits_filter spec_hit_rows_triple hits_def passes_def row10_def row7_def row13_def)




text \<open>
  Claim C7. On a fixed table, loosening one threshold and keeping the other two (a lower
  bound for \<open>af2_lddt\<close>, a higher bound for \<open>contig_rmsd_af2\<close> or for \<open>rog\<close>) gives a
  result that contains every row of the original result, in the same order: rows are
  added, never removed.
\<close>

theorem select_hits_monotone:
  "(t_lddt' \<le> t_lddt \<longrightarrow>
      subseq (select_hits t_lddt t_rmsd t_rog df) (select_hits t_lddt' t_rmsd t_rog df)
      \<and> set (select_hits t_lddt t_rmsd t_rog df) \<subseteq> set (select_hits t_lddt' t_rmsd t_rog df))
   \<and> (t_rmsd \<le> t_rmsd' \<longrightarrow>
      subseq (select_hits t_lddt t_rmsd t_rog df) (select_hits t_lddt t_rmsd' t_rog df)
      \<and> set (select_hits t_lddt t_rmsd t_rog df) \<subseteq> set (select_hits t_lddt t_rmsd' t_rog df))
   \<and> (t_rog \<le> t_rog' \<longrightarrow>
      subseq (select_hits t_lddt t_rmsd t_rog df) (select_hits t_lddt t_rmsd t_rog' df)
      \<and> set (select_hits t_lddt t_rmsd t_rog df) \<subseteq> set (select_hits t_lddt t_rmsd t_rog' df))"
proof -
  have mono: "subseq (select_hits a b c df) (select_hits a' b' c' df)
      \<and> set (select_hits a b c df) \<subseteq> set (select_hits a' b' c' df)"
    if "a' \<le> a" "b \<le> b'" "c \<le> c'" for a a' b b' c c'
  proof -
    have "subseq (select_hits a b c df) (select_hits a' b' c' df)"
      unfolding select_hits_filter
      by (rule subseq_filter_mono) (rule passes_mono [OF that])
    moreover have "set (select_hits a b c df) \<subseteq> set (select_hits a' b' c' df)"
      unfolding select_hits_filter using passes_mono [OF that] by auto
    ultimately show ?thesis by simp
  qed
  show ?thesis
    using mono [of _ _ t_rmsd t_rmsd t_rog t_rog] mono [of t_lddt t_lddt _ _ t_rog t_rog]
      mono [of t_lddt t_lddt t_rmsd t_rmsd] by simp
qed

theorem select_hits_monotone_witness:
  "(50::real) \<le> 60 \<and> (3 / 2 :: real) \<le> 2 \<and> (16::real) \<le> 17
   \<and> set (select_hits 60 (3 / 2) 16
        [\<lparr>name = ''a'', folder = ''f'', af2_lddt = Fin 69, contig_rmsd_af2 = Fin (141 / 100), rog = Fin (138 / 10)\<rparr>,
         \<lparr>name = ''b'', folder = ''f'', af2_lddt = Fin 55, contig_rmsd_af2 = Fin (145 / 100), rog = Fin (131 / 10)\<rparr>])
      \<subseteq> set (select_hits 50 (3 / 2) 16
        [\<lparr>name = ''a'', folder = ''f'', af2_lddt = Fin 69, contig_rmsd_af2 = Fin (141 / 100), rog = Fin (138 / 10)\<rparr>,
         \<lparr>name = ''b'', folder = ''f'', af2_lddt = Fin 55, contig_rmsd_af2 = Fin (145 / 100), rog = Fin (131 / 10)\<rparr>])
   \<and> set (select_hits 60 (3 / 2) 16
        [\<lparr>name = ''a'', folder = ''f'', af2_lddt = Fin 69, contig_rmsd_af2 = Fin (141 / 100), rog = Fin (138 / 10)\<rparr>,
         \<lparr>name = ''b'', folder = ''f'', af2_lddt = Fin 55, contig_rmsd_af2 = Fin (145 / 100), rog = Fin (131 / 10)\<rparr>])
      \<subseteq> set (select_hits 60 2 16
        [\<lparr>name = ''a'', folder = ''f'', af2_lddt = Fin 69, contig_rmsd_af2 = Fin (141 / 100), rog = Fin (138 / 10)\<rparr>,
         \<lparr>name = ''b'', folder = ''f'', af2_lddt = Fin 55, contig_rmsd_af2 = Fin (145 / 100), rog = Fin (131 / 10)\<rparr>])
   \<and> set (select_hits 60 (3 / 2) 16
        [\<lparr>name = ''a'', folder = ''f'', af2_lddt = Fin 69, contig_rmsd_af2 = Fin (141 / 100), rog = Fin (138 / 10)\<rparr>,
         \<lparr>name = ''b'', folder = ''f'', af2_lddt = Fin 55, contig_rmsd_af2 = Fin (145 / 100), rog = Fin (131 / 10)\<rparr>])
      \<subseteq> set (select_hits 60 (3 / 2) 17
        [\<lparr>name = ''a'', folder = ''f'', af2_lddt = Fin 69, contig_rmsd_af2 = Fin (141 / 100), rog = Fin (138 / 10)\<rparr>,
         \<lparr>name = ''b'', folder = ''f'', af2_lddt = Fin 55, contig_rmsd_af2 = Fin (145 / 100), rog = Fin (131 / 10)\<rparr>])"
  using select_hits_monotone [of 50 60 "3 / 2" 16
        "[\<lparr>name = ''a'', folder = ''f'', af2_lddt = Fin 69, contig_rmsd_af2 = Fin (141 / 100), rog = Fin (138 / 10)\<rparr>,
         \<lparr>name = ''b'', folder = ''f'', af2_lddt = Fin 55, contig_rmsd_af2 = Fin (145 / 100), rog = Fin (131 / 10)\<rparr>]" 2 17]
  by simp

text \<open>
  Claim C9. A row with NaN in any of the three columns that the filter compares is not
  in the result, whatever the thresholds: a comparison with a missing value is false.
\<close>

theorem nan_row_excluded:
  assumes "af2_lddt r = NaN \<or> contig_rmsd_af2 r = NaN \<or> rog r = NaN"
  shows "r \<notin> set (select_hits t_lddt t_rmsd t_rog df)"
  using assms by (auto simp: select_hits_filter passes_def)

theorem nan_row_excluded_witness:
  "(af2_lddt \<lparr>name = ''pd1_r1_7'', folder = ''f'', af2_lddt = NaN, contig_rmsd_af2 = Fin 1, rog = Fin 13\<rparr> = NaN
     \<or> contig_rmsd_af2 \<lparr>name = ''pd1_r1_7'', folder = ''f'', af2_lddt = NaN, contig_rmsd_af2 = Fin 1, rog = Fin 13\<rparr> = NaN
     \<or> rog \<lparr>name = ''pd1_r1_7'', folder = ''f'', af2_lddt = NaN, contig_rmsd_af2 = Fin 1, rog = Fin 13\<rparr> = NaN)
   \<and> \<lparr>name = ''pd1_r1_7'', folder = ''f'', af2_lddt = NaN, contig_rmsd_af2 = Fin 1, rog = Fin 13\<rparr>
       \<notin> set (select_hits 60 (3 / 2) 16
            [\<lparr>name = ''pd1_r1_7'', folder = ''f'', af2_lddt = NaN, contig_rmsd_af2 = Fin 1, rog = Fin 13\<rparr>,
             \<lparr>name = ''pd1_r1_8'', folder = ''f'', af2_lddt = Fin 70, contig_rmsd_af2 = Fin 1, rog = Fin 13\<rparr>])
   \<and> select_hits 60 (3 / 2) 16
            [\<lparr>name = ''pd1_r1_7'', folder = ''f'', af2_lddt = NaN, contig_rmsd_af2 = Fin 1, rog = Fin 13\<rparr>,
             \<lparr>name = ''pd1_r1_8'', folder = ''f'', af2_lddt = Fin 70, contig_rmsd_af2 = Fin 1, rog = Fin 13\<rparr>]
       = [\<lparr>name = ''pd1_r1_8'', folder = ''f'', af2_lddt = Fin 70, contig_rmsd_af2 = Fin 1, rog = Fin 13\<rparr>]"
  using nan_row_excluded [of "\<lparr>name = ''pd1_r1_7'', folder = ''f'', af2_lddt = NaN, contig_rmsd_af2 = Fin 1, rog = Fin 13\<rparr>"
       60 "3 / 2" 16 "[\<lparr>name = ''pd1_r1_7'', folder = ''f'', af2_lddt = NaN, contig_rmsd_af2 = Fin 1, rog = Fin 13\<rparr>,
             \<lparr>name = ''pd1_r1_8'', folder = ''f'', af2_lddt = Fin 70, contig_rmsd_af2 = Fin 1, rog = Fin 13\<rparr>]"]
  by (simp add: select_hits_def bool_index_def mask_and_def col_gt_def col_lt_def)

section \<open>Properties of the string operations\<close>

lemma split_on_no_sep: "c \<notin> set x \<Longrightarrow> split_on c x = [x]"
  by (induction x) auto

lemma split_on_append_sep: "c \<notin> set x \<Longrightarrow> split_on c (x @ c # rest) = x # split_on c rest"
  by (induction x) auto

lemma split_on_join:
  assumes "xs \<noteq> []" and "\<forall>x\<in>set xs. c \<notin> set x"
  shows "split_on c (join [c] xs) = xs"
  using assms
proof (induction xs)
  case Nil
  then show ?case by simp
next
  case (Cons x xs)
  show ?case
  proof (cases xs)
    case Nil
    with Cons.prems show ?thesis by (simp add: split_on_no_sep)
  next
    case (Cons y ys)
    with Cons.IH Cons.prems have "split_on c (join [c] (y # ys)) = y # ys" by simp
    with Cons Cons.prems show ?thesis by (simp add: split_on_append_sep)
  qed
qed

lemma keep_chain_A_filter:
  "[] \<notin> set xs \<Longrightarrow> keep_chain_A xs = Inr (filter (\<lambda>x. hd x = CHR ''A'') xs)"
  by (induction xs) (auto split: list.splits)

lemma digit_char_in: "digit_char d \<in> set ''0123456789''"
  by (simp add: digit_char_def)

lemma str_nat_digits: "set (str_nat n) \<subseteq> set ''0123456789''"
proof (induction n rule: str_nat.induct)
  case (1 n)
  show ?case
  proof (cases "n < 10")
    case True
    then show ?thesis using digit_char_in [of n] by (simp add: str_nat.simps [of n])
  next
    case False
    then show ?thesis
      using "1.IH" digit_char_in [of "n mod 10"] by (simp add: str_nat.simps [of n])
  qed
qed

lemma str_nat_nonempty: "str_nat n \<noteq> []"
  by (subst str_nat.simps) simp

lemma hd_str_nat_digit: "hd (str_nat n) \<in> set ''0123456789''"
  using str_nat_digits [of n] str_nat_nonempty [of n] hd_in_set by blast

lemma render_segment_nonempty: "render_segment s \<noteq> []"
  by (cases s) (simp_all add: str_nat_nonempty)

lemma render_segment_no_comma:
  assumes "on_chain_A s"
  shows "CHR '','' \<notin> set (render_segment s)"
proof -
  have "CHR '','' \<notin> set (str_nat n)" for n
    using str_nat_digits [of n] by auto
  then show ?thesis using assms by (cases s) simp_all
qed

lemma hd_render_segment:
  assumes "on_chain_A s"
  shows "(hd (render_segment s) = CHR ''A'') = is_fixed s"
proof (cases s)
  case (Fixed ch lo hi)
  then show ?thesis using assms by simp
next
  case (Gap n)
  have "hd (str_nat n @ ''-'' @ str_nat n) = hd (str_nat n)"
    by (simp add: str_nat_nonempty)
  moreover have "hd (str_nat n) \<noteq> CHR ''A''"
    using hd_str_nat_digit [of n] by auto
  ultimately show ?thesis using Gap by simp
qed

lemma filter_rendered:
  "list_all on_chain_A segs \<Longrightarrow>
     filter (\<lambda>x. hd x = CHR ''A'') (map render_segment segs) = map render_segment (filter is_fixed segs)"
  by (induction segs) (simp_all add: hd_render_segment)

lemma split_render_layout:
  assumes "segs \<noteq> []" "list_all on_chain_A segs"
  shows "split_on (CHR '','') (render_layout segs) = map render_segment segs"
  unfolding render_layout_def
  using assms by (intro split_on_join) (auto simp: list_all_iff render_segment_no_comma)

lemma run2_job_loaded:
  assumes "files (replace ''.pdb'' ''.trb'' fn) = Some (Pickle trb)"
    and "trb ''sampled_mask'' = Some sampled"
    and "[] \<notin> set (split_on (CHR '','') sampled)"
  shows "run2_job kn batch files istart fn =
     Inr \<lparr>pdb = kn_ref_pdb kn,
          out = kn_outdir kn @ basename (replace ''.pdb'' [] fn) @ ''_'' @ kn_run kn,
          mask_arg = sampled, num = batch, start_num = istart,
          logfile = kn_outdir kn @ (basename (replace ''.pdb'' [] fn) @ ''_'' @ kn_run kn) @ ''_''
                      @ str_int istart @ ''.log'',
          use_template = join '','' (filter (\<lambda>x. hd x = CHR ''A'') (split_on (CHR '','') sampled)),
          spike_fas = replace ''.pdb'' ''.fas'' fn,
          force_aa_arg = kn_force_aa kn,
          receptor_arg = kn_receptor kn\<rparr>"
  using assms by (simp add: run2_job_def np_load_def getitem_def keep_chain_A_filter Let_def)

lemma prefix_append_short:
  assumes "prefix p (xs @ ys)" and "length p \<le> length xs"
  shows "prefix p xs"
proof -
  from assms(1) obtain zs where eq: "xs @ ys = p @ zs" by (auto simp: prefix_def)
  from assms(2) have "take (length p) (xs @ ys) = take (length p) xs" by simp
  with eq have "p = take (length p) xs" by simp
  then show ?thesis by (metis take_is_prefix)
qed

lemma replace_from_suffix:
  assumes "\<not> sublist ''.pdb'' (stem @ ''.pd'')"
  shows "replace_from ''.pdb'' new (stem @ ''.pdb'') = stem @ new"
  using assms
proof (induction stem)
  case Nil
  show ?case by simp
next
  case (Cons c cs)
  from Cons.prems have np: "\<not> prefix ''.pdb'' (c # cs @ ''.pd'')"
    and ns: "\<not> sublist ''.pdb'' (cs @ ''.pd'')"
    by (simp_all add: sublist_Cons_right)
  have nprefix: "\<not> prefix ''.pdb'' (c # cs @ ''.pdb'')"
  proof
    assume "prefix ''.pdb'' (c # cs @ ''.pdb'')"
    moreover have "c # cs @ ''.pdb'' = (c # cs @ ''.pd'') @ ''b''" by simp
    ultimately have "prefix ''.pdb'' ((c # cs @ ''.pd'') @ ''b'')" by (simp only:)
    then have "prefix ''.pdb'' (c # cs @ ''.pd'')"
      by (rule prefix_append_short) simp
    with np show False by contradiction
  qed
  show ?case
    by (simp only: append_Cons replace_from.simps nprefix if_False Cons.IH [OF ns])
qed

lemma replace_pdb_suffix:
  "\<not> sublist ''.pdb'' (stem @ ''.pd'') \<Longrightarrow> replace ''.pdb'' new (stem @ ''.pdb'') = stem @ new"
  by (simp add: replace_def replace_from_suffix)

section \<open>Properties of the loops\<close>

lemma copy_all_append:
  "copy_all (xs @ ys) files =
     (case copy_all xs files of
        (files', None) \<Rightarrow> copy_all ys files'
      | (files', Some e) \<Rightarrow> (files', Some e))"
  by (induction xs files rule: copy_all.induct) (auto split: sum.splits)

lemma promote_append:
  "promote od (pre @ post) files =
     (case promote od pre files of
        (files', None) \<Rightarrow> promote od post files'
      | (files', Some e) \<Rightarrow> (files', Some e))"
  unfolding promote_def by (simp add: copy_all_append)

lemma print_loop_append:
  "print_loop f (xs @ ys) =
     (case print_loop f xs of
        (ls, None) \<Rightarrow> (case print_loop f ys of (ls', r) \<Rightarrow> (ls @ ls', r))
      | (ls, Some e) \<Rightarrow> (ls, Some e))"
  by (induction xs) (auto split: sum.splits prod.splits option.splits)

lemma print_loop_cong:
  "(\<And>x. x \<in> set xs \<Longrightarrow> f x = g x) \<Longrightarrow> print_loop f xs = print_loop g xs"
  by (induction xs) (auto split: sum.splits prod.splits)

lemma print_loop_length:
  "print_loop f xs = (ls, None) \<Longrightarrow> length ls = length xs"
  by (induction xs arbitrary: ls) (auto split: sum.splits prod.splits)

text \<open>The paths of the tutorial, normalised, and a copy of a file onto another spelling of itself.\<close>

lemma normpath_tutorial:
  "normpath ''output/run1/trf_relax//pd1_r1_13.pdb'' = ''output/run1/trf_relax/pd1_r1_13.pdb''"
  "normpath ''output/run1/trf_relax/af2/pd1_r1_13.pdb'' = ''output/run1/trf_relax/af2/pd1_r1_13.pdb''"
  "normpath ''output/run1/trf_relax/../pd1_r1_13.trb'' = ''output/run1/pd1_r1_13.trb''"
  "normpath ''output/run1/trf_relax/../pd1_r1_13.fas'' = ''output/run1/pd1_r1_13.fas''"
  "normpath ''output/hits_r1/pd1_r1_13.pdb'' = ''output/hits_r1/pd1_r1_13.pdb''"
  "normpath ''output/hits_r1/af2/pd1_r1_13_af2pred.pdb'' = ''output/hits_r1/af2/pd1_r1_13_af2pred.pdb''"
  "normpath ''output/hits_r1/pd1_r1_13.trb'' = ''output/hits_r1/pd1_r1_13.trb''"
  "normpath ''output/hits_r1/pd1_r1_13.fas'' = ''output/hits_r1/pd1_r1_13.fas''"
  "normpath ''output/run1/trf_relax//pd1_r1_10.pdb'' = ''output/run1/trf_relax/pd1_r1_10.pdb''"
  "normpath ''output/run1/trf_relax/af2/pd1_r1_10.pdb'' = ''output/run1/trf_relax/af2/pd1_r1_10.pdb''"
  "normpath ''output/run1/trf_relax/../pd1_r1_10.trb'' = ''output/run1/pd1_r1_10.trb''"
  "normpath ''output/hits_r1/pd1_r1_10.pdb'' = ''output/hits_r1/pd1_r1_10.pdb''"
  "normpath ''output/hits_r1/af2/pd1_r1_10_af2pred.pdb'' = ''output/hits_r1/af2/pd1_r1_10_af2pred.pdb''"
  by (simp_all add: normpath_def norm_step_def)

lemma copyfile_same_file:
  "copyfile ''output/run1/trf_relax//pd1_r1_13.pdb'' ''output/run1/trf_relax/pd1_r1_13.pdb'' run1_files
     = Inl SameFileError"
  by (simp add: copyfile_def normpath_tutorial normpath_def norm_step_def run1_files_def)

text \<open>Promotion and run 2 on the data of the tutorial.\<close>

lemma promote_row13:
  "promote ''output/hits_r1/'' [row13] run1_files =
     (run1_files(''output/hits_r1/pd1_r1_13.pdb'' \<mapsto> Data ''model 13'',
                 ''output/hits_r1/af2/pd1_r1_13_af2pred.pdb'' \<mapsto> Data ''af2 model 13'',
                 ''output/hits_r1/pd1_r1_13.trb'' \<mapsto>
                    Pickle [''sampled_mask'' \<mapsto> ''27-27,A63-82,21-21,A119-140,3-3''],
                 ''output/hits_r1/pd1_r1_13.fas'' \<mapsto> Data ''sequence 13''),
      None)"
  by (simp add: promote_def row_copies_def row13_def copyfile_def normpath_tutorial run1_files_def)

lemma promote_row10:
  "promote ''output/hits_r1/'' [row10] run1_files =
     (run1_files(''output/hits_r1/pd1_r1_10.pdb'' \<mapsto> Data ''model 10'',
                 ''output/hits_r1/af2/pd1_r1_10_af2pred.pdb'' \<mapsto> Data ''af2 model 10''),
      Some (FileNotFoundError ''output/run1/trf_relax/../pd1_r1_10.trb''))"
  by (simp add: promote_def row_copies_def row10_def copyfile_def normpath_tutorial run1_files_def)

lemma promote_row10_after_row13:
  "promote ''output/hits_r1/'' [row10]
     (run1_files(''output/hits_r1/pd1_r1_13.pdb'' \<mapsto> Data ''model 13'',
                 ''output/hits_r1/af2/pd1_r1_13_af2pred.pdb'' \<mapsto> Data ''af2 model 13'',
                 ''output/hits_r1/pd1_r1_13.trb'' \<mapsto>
                    Pickle [''sampled_mask'' \<mapsto> ''27-27,A63-82,21-21,A119-140,3-3''],
                 ''output/hits_r1/pd1_r1_13.fas'' \<mapsto> Data ''sequence 13'')) =
     (run1_files(''output/hits_r1/pd1_r1_13.pdb'' \<mapsto> Data ''model 13'',
                 ''output/hits_r1/af2/pd1_r1_13_af2pred.pdb'' \<mapsto> Data ''af2 model 13'',
                 ''output/hits_r1/pd1_r1_13.trb'' \<mapsto>
                    Pickle [''sampled_mask'' \<mapsto> ''27-27,A63-82,21-21,A119-140,3-3''],
                 ''output/hits_r1/pd1_r1_13.fas'' \<mapsto> Data ''sequence 13'',
                 ''output/hits_r1/pd1_r1_10.pdb'' \<mapsto> Data ''model 10'',
                 ''output/hits_r1/af2/pd1_r1_10_af2pred.pdb'' \<mapsto> Data ''af2 model 10''),
      Some (FileNotFoundError ''output/run1/trf_relax/../pd1_r1_10.trb''))"
  by (simp add: promote_def row_copies_def row10_def copyfile_def normpath_tutorial run1_files_def)

lemma run2_step_13:
  "\<exists>line. run2_step tutorial_knobs 5 hits_files (i, ''output/hits_r1/pd1_r1_13.pdb'') = Inr line"
  by (simp add: run2_step_def run2_job_def replace_def np_load_def getitem_def hits_files_def Let_def)

lemma run2_step_11:
  "run2_step tutorial_knobs 5 hits_files (i, ''output/hits_r1/pd1_r1_11.pdb'')
      = Inl (FileNotFoundError ''output/hits_r1/pd1_r1_11.trb'')"
  by (simp add: run2_step_def run2_job_def replace_def np_load_def hits_files_def Let_def)

lemma print_loop_13:
  "print_loop (run2_step tutorial_knobs 5 hits_files) [(0, ''output/hits_r1/pd1_r1_13.pdb'')]
     = (fst (print_loop (run2_step tutorial_knobs 5 hits_files) [(0, ''output/hits_r1/pd1_r1_13.pdb'')]), None)"
  using run2_step_13 [of 0] by auto

text \<open>The commands that the run 2 cell prints for the two hits of the notebook.\<close>

lemma run2_tutorial_commands:
  "run2 tutorial_knobs 10 5 [''output/hits_r1/pd1_r1_13.pdb'', ''output/hits_r1/pd1_r1_10.pdb''] hits_files =
     ([''source activate SE3; python ../../hallucination/hallucinate.py --pdb=input/pd1.pdb --out=output/run2/pd1_r1_13_r2 --steps m300 --num=5 --start_num=0 --mask 27-27,A63-82,21-21,A119-140,3-3 --use_template A63-82,A119-140 --spike_fas output/hits_r1/pd1_r1_13.fas --spike 0.999 --force_aa A64,A66,A68,A70,A73-81,A123-124,A127,A128,A132-136,A139 --exclude_aa C --receptor input/pdl1_trunc.pdb --rec_placement second --w_rog=1 --rog_thresh=16 --save_pdb=True --track_step 1 &>> output/run2/pd1_r1_13_r2_0.log'',
       ''source activate SE3; python ../../hallucination/hallucinate.py --pdb=input/pd1.pdb --out=output/run2/pd1_r1_10_r2 --steps m300 --num=5 --start_num=0 --mask 29-29,A63-82,16-16,A119-140,7-7 --use_template A63-82,A119-140 --spike_fas output/hits_r1/pd1_r1_10.fas --spike 0.999 --force_aa A64,A66,A68,A70,A73-81,A123-124,A127,A128,A132-136,A139 --exclude_aa C --receptor input/pdl1_trunc.pdb --rec_placement second --w_rog=1 --rog_thresh=16 --save_pdb=True --track_step 1 &>> output/run2/pd1_r1_10_r2_0.log'',
       ''source activate SE3; python ../../hallucination/hallucinate.py --pdb=input/pd1.pdb --out=output/run2/pd1_r1_13_r2 --steps m300 --num=5 --start_num=5 --mask 27-27,A63-82,21-21,A119-140,3-3 --use_template A63-82,A119-140 --spike_fas output/hits_r1/pd1_r1_13.fas --spike 0.999 --force_aa A64,A66,A68,A70,A73-81,A123-124,A127,A128,A132-136,A139 --exclude_aa C --receptor input/pdl1_trunc.pdb --rec_placement second --w_rog=1 --rog_thresh=16 --save_pdb=True --track_step 1 &>> output/run2/pd1_r1_13_r2_5.log'',
       ''source activate SE3; python ../../hallucination/hallucinate.py --pdb=input/pd1.pdb --out=output/run2/pd1_r1_10_r2 --steps m300 --num=5 --start_num=5 --mask 29-29,A63-82,16-16,A119-140,7-7 --use_template A63-82,A119-140 --spike_fas output/hits_r1/pd1_r1_10.fas --spike 0.999 --force_aa A64,A66,A68,A70,A73-81,A123-124,A127,A128,A132-136,A139 --exclude_aa C --receptor input/pdl1_trunc.pdb --rec_placement second --w_rog=1 --rog_thresh=16 --save_pdb=True --track_step 1 &>> output/run2/pd1_r1_10_r2_5.log''],
      None)"
  by (simp add: run2_def arange_def upt_rec run2_step_def run2_job_def run2_cmd_def replace_def
      basename_def np_load_def getitem_def hits_files_def tutorial_knobs_def Let_def
      str_int_def str_nat.simps digit_char_def)

section \<open>Claims about run 2\<close>

text \<open>
  Claim C2, at an input that refutes it as stated. The realized layout
  \<^verbatim>\<open>10-10,B5-20,3-3\<close> has one fixed segment, on chain B; the template list of the child
  is empty, not \<^verbatim>\<open>B5-20\<close>.
\<close>

theorem propagate_other_chain_counterexample:
  "render_layout [Gap 10, Fixed (CHR ''B'') 5 20, Gap 3] = ''10-10,B5-20,3-3''
   \<and> render_layout (filter is_fixed [Gap 10, Fixed (CHR ''B'') 5 20, Gap 3]) = ''B5-20''
   \<and> map_sum id use_template
        (run2_job \<lparr>kn_ref_pdb = ''input/pd1.pdb'', kn_receptor = ''input/pdl1_trunc.pdb'',
                    kn_force_aa = ''A64'', kn_run = ''r2'', kn_outdir = ''output/run2/''\<rparr> 5
           [''output/hits_r1/pd1_r1_13.trb'' \<mapsto> Pickle [''sampled_mask'' \<mapsto> ''10-10,B5-20,3-3'']]
           0 ''output/hits_r1/pd1_r1_13.pdb'') = Inr []"
  by (simp add: render_layout_def str_nat.simps digit_char_def run2_job_def replace_def
      np_load_def getitem_def Let_def)

text \<open>
  Claim C2, as the loop has it. For every parent whose metadata holds a realized layout
  (not empty, each free segment written with the length it resolved to) with all its
  fixed segments on chain A, the child job has that layout unchanged as its mask, so
  every free segment keeps its exact length; its template list is the fixed segments of
  the layout, in order; its seed sequence is the path of the parent with \<^verbatim>\<open>.pdb\<close>
  replaced by \<^verbatim>\<open>.fas\<close>, which is the parent's sequence file when \<^verbatim>\<open>.pdb\<close>
  occurs in the path only as its extension; and the command passes it with
  \<^verbatim>\<open>--spike 0.999\<close>. The layout resolved to 30, A63-82, 21, A119-140, 3 gives the
  child mask \<^verbatim>\<open>30-30,A63-82,21-21,A119-140,3-3\<close> and the template list
  \<^verbatim>\<open>A63-82,A119-140\<close>.
\<close>

theorem propagate_layout:
  assumes "segs \<noteq> []" and "list_all on_chain_A segs"
    and "files (replace ''.pdb'' ''.trb'' fn) = Some (Pickle trb)"
    and "trb ''sampled_mask'' = Some (render_layout segs)"
  shows "\<exists>j. run2_job kn batch files istart fn = Inr j
     \<and> mask_arg j = render_layout segs
     \<and> use_template j = render_layout (filter is_fixed segs)
     \<and> spike_fas j = replace ''.pdb'' ''.fas'' fn
     \<and> (\<forall>stem. fn = stem @ ''.pdb'' \<and> \<not> sublist ''.pdb'' (stem @ ''.pd'') \<longrightarrow> spike_fas j = stem @ ''.fas'')
     \<and> (\<exists>before after. run2_cmd j =
            before @ ''--mask '' @ render_layout segs
              @ '' --use_template '' @ render_layout (filter is_fixed segs)
              @ '' --spike_fas '' @ spike_fas j @ '' --spike 0.999 '' @ after)"
proof -
  have split: "split_on (CHR '','') (render_layout segs) = map render_segment segs"
    by (rule split_render_layout [OF assms(1,2)])
  have nonempty: "[] \<notin> set (split_on (CHR '','') (render_layout segs))"
  proof
    assume "[] \<in> set (split_on (CHR '','') (render_layout segs))"
    then obtain s where "[] = render_segment s" by (auto simp: split)
    with render_segment_nonempty [of s] show False by simp
  qed
  define j where "j = \<lparr>pdb = kn_ref_pdb kn,
          out = kn_outdir kn @ basename (replace ''.pdb'' [] fn) @ ''_'' @ kn_run kn,
          mask_arg = render_layout segs, num = batch, start_num = istart,
          logfile = kn_outdir kn @ (basename (replace ''.pdb'' [] fn) @ ''_'' @ kn_run kn) @ ''_''
                      @ str_int istart @ ''.log'',
          use_template = join '','' (filter (\<lambda>x. hd x = CHR ''A'') (split_on (CHR '','') (render_layout segs))),
          spike_fas = replace ''.pdb'' ''.fas'' fn,
          force_aa_arg = kn_force_aa kn,
          receptor_arg = kn_receptor kn\<rparr>"
  have run: "run2_job kn batch files istart fn = Inr j"
    unfolding j_def
    by (rule run2_job_loaded [where files = files and fn = fn and trb = trb, OF assms(3,4) nonempty])
  have m: "mask_arg j = render_layout segs" by (simp add: j_def)
  have "use_template j =
      join '','' (filter (\<lambda>x. hd x = CHR ''A'') (split_on (CHR '','') (render_layout segs)))"
    by (simp add: j_def)
  also have "\<dots> = join '','' (map render_segment (filter is_fixed segs))"
    by (simp only: split filter_rendered [OF assms(2)])
  finally have t: "use_template j = render_layout (filter is_fixed segs)"
    by (simp only: render_layout_def)
  have f: "spike_fas j = replace ''.pdb'' ''.fas'' fn" by (simp add: j_def)
  have f': "\<forall>stem. fn = stem @ ''.pdb'' \<and> \<not> sublist ''.pdb'' (stem @ ''.pd'') \<longrightarrow> spike_fas j = stem @ ''.fas''"
    using f by (auto simp: replace_pdb_suffix)
  have c: "\<exists>before after. run2_cmd j =
            before @ ''--mask '' @ render_layout segs
              @ '' --use_template '' @ render_layout (filter is_fixed segs)
              @ '' --spike_fas '' @ spike_fas j @ '' --spike 0.999 '' @ after"
    apply (rule exI [of _ "''source activate SE3; python ../../hallucination/hallucinate.py ''
       @ ''--pdb='' @ pdb j @ '' --out='' @ out j @ '' ''
       @ ''--steps m300 --num='' @ str_int (num j) @ '' --start_num='' @ str_int (start_num j) @ '' ''"])
    apply (rule exI [of _ "''--force_aa '' @ force_aa_arg j @ '' --exclude_aa C ''
       @ ''--receptor '' @ receptor_arg j @ '' --rec_placement second ''
       @ ''--w_rog=1 --rog_thresh=16 ''
       @ ''--save_pdb=True --track_step 1 ''
       @ ''&>> '' @ logfile j"])
    apply (simp add: run2_cmd_def m t)
    done
  from run m t f f' c show ?thesis by blast
qed

theorem propagate_layout_witness:
  "[Gap 30, Fixed (CHR ''A'') 63 82, Gap 21, Fixed (CHR ''A'') 119 140, Gap 3] \<noteq> []
   \<and> list_all on_chain_A [Gap 30, Fixed (CHR ''A'') 63 82, Gap 21, Fixed (CHR ''A'') 119 140, Gap 3]
   \<and> render_layout [Gap 30, Fixed (CHR ''A'') 63 82, Gap 21, Fixed (CHR ''A'') 119 140, Gap 3]
        = ''30-30,A63-82,21-21,A119-140,3-3''
   \<and> (\<exists>j. run2_job \<lparr>kn_ref_pdb = ''input/pd1.pdb'', kn_receptor = ''input/pdl1_trunc.pdb'',
                    kn_force_aa = ''A64'', kn_run = ''r2'', kn_outdir = ''output/run2/''\<rparr> 5
           [''output/hits_r1/pd1_r1_13.trb'' \<mapsto> Pickle [''sampled_mask'' \<mapsto> ''30-30,A63-82,21-21,A119-140,3-3'']]
           0 ''output/hits_r1/pd1_r1_13.pdb'' = Inr j
        \<and> mask_arg j = ''30-30,A63-82,21-21,A119-140,3-3''
        \<and> use_template j = ''A63-82,A119-140''
        \<and> spike_fas j = ''output/hits_r1/pd1_r1_13.fas'')"
proof -
  have r: "render_layout [Gap 30, Fixed (CHR ''A'') 63 82, Gap 21, Fixed (CHR ''A'') 119 140, Gap 3]
        = ''30-30,A63-82,21-21,A119-140,3-3''"
    by (simp add: render_layout_def str_nat.simps digit_char_def)
  have r': "render_layout (filter is_fixed [Gap 30, Fixed (CHR ''A'') 63 82, Gap 21, Fixed (CHR ''A'') 119 140, Gap 3])
        = ''A63-82,A119-140''"
    by (simp add: render_layout_def str_nat.simps digit_char_def)
  have p: "replace ''.pdb'' ''.trb'' ''output/hits_r1/pd1_r1_13.pdb'' = ''output/hits_r1/pd1_r1_13.trb''"
    by (simp add: replace_def)
  have q: "replace ''.pdb'' ''.fas'' ''output/hits_r1/pd1_r1_13.pdb'' = ''output/hits_r1/pd1_r1_13.fas''"
    by (simp add: replace_def)
  have h1: "[Gap 30, Fixed (CHR ''A'') 63 82, Gap 21, Fixed (CHR ''A'') 119 140, Gap 3] \<noteq> []" by simp
  have h2: "list_all on_chain_A [Gap 30, Fixed (CHR ''A'') 63 82, Gap 21, Fixed (CHR ''A'') 119 140, Gap 3]" by simp
  have h3: "[''output/hits_r1/pd1_r1_13.trb'' \<mapsto> Pickle [''sampled_mask'' \<mapsto> ''30-30,A63-82,21-21,A119-140,3-3'']]
       (replace ''.pdb'' ''.trb'' ''output/hits_r1/pd1_r1_13.pdb'')
       = Some (Pickle [''sampled_mask'' \<mapsto> ''30-30,A63-82,21-21,A119-140,3-3''])"
    by (simp only: p) simp
  have h4: "[''sampled_mask'' \<mapsto> ''30-30,A63-82,21-21,A119-140,3-3''] ''sampled_mask''
       = Some (render_layout [Gap 30, Fixed (CHR ''A'') 63 82, Gap 21, Fixed (CHR ''A'') 119 140, Gap 3])"
    by (simp only: r) simp
  from propagate_layout [where kn = "\<lparr>kn_ref_pdb = ''input/pd1.pdb'', kn_receptor = ''input/pdl1_trunc.pdb'',
                    kn_force_aa = ''A64'', kn_run = ''r2'', kn_outdir = ''output/run2/''\<rparr>"
      and batch = 5 and istart = 0 and fn = "''output/hits_r1/pd1_r1_13.pdb''"
      and files = "[''output/hits_r1/pd1_r1_13.trb'' \<mapsto> Pickle [''sampled_mask'' \<mapsto> ''30-30,A63-82,21-21,A119-140,3-3'']]"
      and trb = "[''sampled_mask'' \<mapsto> ''30-30,A63-82,21-21,A119-140,3-3'']"
      and segs = "[Gap 30, Fixed (CHR ''A'') 63 82, Gap 21, Fixed (CHR ''A'') 119 140, Gap 3]", OF h1 h2 h3 h4]
  obtain j where "run2_job \<lparr>kn_ref_pdb = ''input/pd1.pdb'', kn_receptor = ''input/pdl1_trunc.pdb'',
                    kn_force_aa = ''A64'', kn_run = ''r2'', kn_outdir = ''output/run2/''\<rparr> 5
           [''output/hits_r1/pd1_r1_13.trb'' \<mapsto> Pickle [''sampled_mask'' \<mapsto> ''30-30,A63-82,21-21,A119-140,3-3'']]
           0 ''output/hits_r1/pd1_r1_13.pdb'' = Inr j"
     and "mask_arg j = render_layout [Gap 30, Fixed (CHR ''A'') 63 82, Gap 21, Fixed (CHR ''A'') 119 140, Gap 3]"
     and "use_template j = render_layout (filter is_fixed [Gap 30, Fixed (CHR ''A'') 63 82, Gap 21, Fixed (CHR ''A'') 119 140, Gap 3])"
     and "spike_fas j = replace ''.pdb'' ''.fas'' ''output/hits_r1/pd1_r1_13.pdb''"
    by blast
  then have "run2_job \<lparr>kn_ref_pdb = ''input/pd1.pdb'', kn_receptor = ''input/pdl1_trunc.pdb'',
                    kn_force_aa = ''A64'', kn_run = ''r2'', kn_outdir = ''output/run2/''\<rparr> 5
           [''output/hits_r1/pd1_r1_13.trb'' \<mapsto> Pickle [''sampled_mask'' \<mapsto> ''30-30,A63-82,21-21,A119-140,3-3'']]
           0 ''output/hits_r1/pd1_r1_13.pdb'' = Inr j
        \<and> mask_arg j = ''30-30,A63-82,21-21,A119-140,3-3''
        \<and> use_template j = ''A63-82,A119-140''
        \<and> spike_fas j = ''output/hits_r1/pd1_r1_13.fas''"
    by (simp only: r r' q)
  then show ?thesis using h1 h2 r by blast
qed

text \<open>
  Claim C10. When the metadata of the parent loads and no segment of its sampled mask is
  empty, the template list of the child is the comma-separated segments of the sampled
  mask whose first character is \<open>A\<close>, in order, joined by commas: a segment that
  starts with another chain letter or with a digit is left out. From
  \<^verbatim>\<open>10-10,B5-20,3-3,A7-9\<close> it keeps \<^verbatim>\<open>A7-9\<close> only.
\<close>

theorem template_keeps_chain_A:
  assumes "files (replace ''.pdb'' ''.trb'' fn) = Some (Pickle trb)"
    and "trb ''sampled_mask'' = Some sampled"
    and "[] \<notin> set (split_on (CHR '','') sampled)"
  shows "\<exists>j. run2_job kn batch files istart fn = Inr j
     \<and> use_template j = join '','' (filter (\<lambda>x. hd x = CHR ''A'') (split_on (CHR '','') sampled))"
  using run2_job_loaded [where files = files and fn = fn and trb = trb, OF assms] by simp

theorem template_keeps_chain_A_witness:
  "[''output/hits_r1/pd1_r1_13.trb'' \<mapsto> Pickle [''sampled_mask'' \<mapsto> ''10-10,B5-20,3-3,A7-9'']]
       (replace ''.pdb'' ''.trb'' ''output/hits_r1/pd1_r1_13.pdb'')
       = Some (Pickle [''sampled_mask'' \<mapsto> ''10-10,B5-20,3-3,A7-9''])
   \<and> [''sampled_mask'' \<mapsto> ''10-10,B5-20,3-3,A7-9''] ''sampled_mask'' = Some ''10-10,B5-20,3-3,A7-9''
   \<and> [] \<notin> set (split_on (CHR '','') ''10-10,B5-20,3-3,A7-9'')
   \<and> (\<exists>j. run2_job \<lparr>kn_ref_pdb = ''input/pd1.pdb'', kn_receptor = ''input/pdl1_trunc.pdb'',
                    kn_force_aa = ''A64'', kn_run = ''r2'', kn_outdir = ''output/run2/''\<rparr> 5
           [''output/hits_r1/pd1_r1_13.trb'' \<mapsto> Pickle [''sampled_mask'' \<mapsto> ''10-10,B5-20,3-3,A7-9'']]
           0 ''output/hits_r1/pd1_r1_13.pdb'' = Inr j
        \<and> use_template j = ''A7-9'')"
proof -
  have h1: "[''output/hits_r1/pd1_r1_13.trb'' \<mapsto> Pickle [''sampled_mask'' \<mapsto> ''10-10,B5-20,3-3,A7-9'']]
       (replace ''.pdb'' ''.trb'' ''output/hits_r1/pd1_r1_13.pdb'')
       = Some (Pickle [''sampled_mask'' \<mapsto> ''10-10,B5-20,3-3,A7-9''])"
    by (simp add: replace_def)
  have h2: "[''sampled_mask'' \<mapsto> ''10-10,B5-20,3-3,A7-9''] ''sampled_mask'' = Some ''10-10,B5-20,3-3,A7-9''"
    by simp
  have h3: "[] \<notin> set (split_on (CHR '','') ''10-10,B5-20,3-3,A7-9'')"
    by simp
  have v: "join '','' (filter (\<lambda>x. hd x = CHR ''A'') (split_on (CHR '','') ''10-10,B5-20,3-3,A7-9'')) = ''A7-9''"
    by simp
  from template_keeps_chain_A [where kn = "\<lparr>kn_ref_pdb = ''input/pd1.pdb'', kn_receptor = ''input/pdl1_trunc.pdb'',
                    kn_force_aa = ''A64'', kn_run = ''r2'', kn_outdir = ''output/run2/''\<rparr>"
      and batch = 5 and istart = 0 and fn = "''output/hits_r1/pd1_r1_13.pdb''"
      and files = "[''output/hits_r1/pd1_r1_13.trb'' \<mapsto> Pickle [''sampled_mask'' \<mapsto> ''10-10,B5-20,3-3,A7-9'']]"
      and trb = "[''sampled_mask'' \<mapsto> ''10-10,B5-20,3-3,A7-9'']"
      and sampled = "''10-10,B5-20,3-3,A7-9''", OF h1 h2 h3]
  have "\<exists>j. run2_job \<lparr>kn_ref_pdb = ''input/pd1.pdb'', kn_receptor = ''input/pdl1_trunc.pdb'',
                    kn_force_aa = ''A64'', kn_run = ''r2'', kn_outdir = ''output/run2/''\<rparr> 5
           [''output/hits_r1/pd1_r1_13.trb'' \<mapsto> Pickle [''sampled_mask'' \<mapsto> ''10-10,B5-20,3-3,A7-9'']]
           0 ''output/hits_r1/pd1_r1_13.pdb'' = Inr j
        \<and> use_template j = ''A7-9''"
    by (simp only: v)
  with h1 h2 h3 show ?thesis by blast
qed

text \<open>
  Claim C6, at an input that refutes it as stated. The metadata file of the first hit is
  missing and the four files of the second hit are present: the promotion loop ends with
  \<^verbatim>\<open>FileNotFoundError\<close> and nothing of the second hit has been copied, although
  promoting the second hit alone copies its metadata. In run 2, with the metadata of the
  second of three parents missing, the loop ends with \<^verbatim>\<open>FileNotFoundError\<close>
  after one command, where the two sound parents alone get four.
\<close>

theorem sibling_not_promoted_counterexample:
  "snd (promote ''output/hits_r1/'' [row10, row13] run1_files)
      = Some (FileNotFoundError ''output/run1/trf_relax/../pd1_r1_10.trb'')
   \<and> fst (promote ''output/hits_r1/'' [row10, row13] run1_files) ''output/hits_r1/pd1_r1_13.pdb'' = None
   \<and> fst (promote ''output/hits_r1/'' [row10, row13] run1_files) ''output/hits_r1/pd1_r1_13.trb'' = None
   \<and> fst (promote ''output/hits_r1/'' [row13] run1_files) ''output/hits_r1/pd1_r1_13.trb''
        = Some (Pickle [''sampled_mask'' \<mapsto> ''27-27,A63-82,21-21,A119-140,3-3''])
   \<and> snd (run2 tutorial_knobs 10 5
             [''output/hits_r1/pd1_r1_13.pdb'', ''output/hits_r1/pd1_r1_11.pdb'', ''output/hits_r1/pd1_r1_10.pdb'']
             hits_files)
        = Some (FileNotFoundError ''output/hits_r1/pd1_r1_11.trb'')
   \<and> length (fst (run2 tutorial_knobs 10 5
             [''output/hits_r1/pd1_r1_13.pdb'', ''output/hits_r1/pd1_r1_11.pdb'', ''output/hits_r1/pd1_r1_10.pdb'']
             hits_files)) = 1
   \<and> length (fst (run2 tutorial_knobs 10 5
             [''output/hits_r1/pd1_r1_13.pdb'', ''output/hits_r1/pd1_r1_10.pdb''] hits_files)) = 4"
proof -
  have a: "promote ''output/hits_r1/'' [row10, row13] run1_files =
     (run1_files(''output/hits_r1/pd1_r1_10.pdb'' \<mapsto> Data ''model 10'',
                 ''output/hits_r1/af2/pd1_r1_10_af2pred.pdb'' \<mapsto> Data ''af2 model 10''),
      Some (FileNotFoundError ''output/run1/trf_relax/../pd1_r1_10.trb''))"
    using promote_append [of "''output/hits_r1/''" "[row10]" "[row13]" run1_files]
    by (simp add: promote_row10)
  have a1: "snd (promote ''output/hits_r1/'' [row10, row13] run1_files)
      = Some (FileNotFoundError ''output/run1/trf_relax/../pd1_r1_10.trb'')"
    by (simp add: a)
  have a2: "fst (promote ''output/hits_r1/'' [row10, row13] run1_files) ''output/hits_r1/pd1_r1_13.pdb'' = None"
    by (simp only: a fst_conv) (simp add: run1_files_def)
  have a3: "fst (promote ''output/hits_r1/'' [row10, row13] run1_files) ''output/hits_r1/pd1_r1_13.trb'' = None"
    by (simp only: a fst_conv) (simp add: run1_files_def)
  have b: "fst (promote ''output/hits_r1/'' [row13] run1_files) ''output/hits_r1/pd1_r1_13.trb''
        = Some (Pickle [''sampled_mask'' \<mapsto> ''27-27,A63-82,21-21,A119-140,3-3''])"
    by (simp add: promote_row13)
  have c: "\<exists>line. run2 tutorial_knobs 10 5
             [''output/hits_r1/pd1_r1_13.pdb'', ''output/hits_r1/pd1_r1_11.pdb'', ''output/hits_r1/pd1_r1_10.pdb'']
             hits_files = ([line], Some (FileNotFoundError ''output/hits_r1/pd1_r1_11.trb''))"
    using run2_step_13 [of 0] run2_step_11 [of 0] by (auto simp: run2_def arange_def upt_rec)
  have d: "length (fst (run2 tutorial_knobs 10 5
             [''output/hits_r1/pd1_r1_13.pdb'', ''output/hits_r1/pd1_r1_10.pdb''] hits_files)) = 4"
    by (simp add: run2_tutorial_commands)
  from c have c1: "snd (run2 tutorial_knobs 10 5
             [''output/hits_r1/pd1_r1_13.pdb'', ''output/hits_r1/pd1_r1_11.pdb'', ''output/hits_r1/pd1_r1_10.pdb'']
             hits_files)
        = Some (FileNotFoundError ''output/hits_r1/pd1_r1_11.trb'')"
    and c2: "length (fst (run2 tutorial_knobs 10 5
             [''output/hits_r1/pd1_r1_13.pdb'', ''output/hits_r1/pd1_r1_11.pdb'', ''output/hits_r1/pd1_r1_10.pdb'']
             hits_files)) = 1"
    by auto
  from a1 a2 a3 b c1 c2 d show ?thesis by (intro conjI)
qed

text \<open>
  Claim C6, as the loops have it. An exception is not caught, and the first iteration
  that raises ends the loop with its exception. In the promotion loop an iteration is a
  row: when the rows before a row are promoted without error and the row raises, the
  result is that exception and the files as that row left them, whatever rows follow.
  In run 2 an iteration is a pair of a start index and a parent, the start index being
  the outer loop: when the iterations before one have printed their commands and that
  one raises, the run ends with that exception after exactly those commands, one for
  each iteration before it, whatever iterations follow; in particular, when a parent
  raises at the first start index, the commands printed are one for each parent listed
  before it.
\<close>

theorem first_error_aborts:
  "(promote od pre files = (files1, None) \<and> promote od [row] files1 = (files2, Some e)
      \<longrightarrow> promote od (pre @ row # post) files = (files2, Some e))
   \<and> (arange 0 total_num batch = Inr istarts
       \<and> List.product istarts parent_designs = its_before @ it # its_after
       \<and> print_loop (run2_step kn batch files) its_before = (ls, None)
       \<and> run2_step kn batch files it = Inl e'
      \<longrightarrow> run2 kn total_num batch parent_designs files = (ls, Some e')
          \<and> length ls = length its_before)
   \<and> (arange 0 total_num batch = Inr (istart # later_starts)
       \<and> parent_designs = parents_before @ fn # parents_after
       \<and> print_loop (run2_step kn batch files) (map (Pair istart) parents_before) = (ls', None)
       \<and> run2_step kn batch files (istart, fn) = Inl e''
      \<longrightarrow> run2 kn total_num batch parent_designs files = (ls', Some e'')
          \<and> length ls' = length parents_before)"
proof (intro conjI impI)
  assume a: "promote od pre files = (files1, None) \<and> promote od [row] files1 = (files2, Some e)"
  have "promote od (row # post) files1 = promote od ([row] @ post) files1" by simp
  also have "\<dots> = (files2, Some e)"
    using a by (simp only: promote_append [of od "[row]"]) simp
  finally have "promote od (row # post) files1 = (files2, Some e)" .
  with a show "promote od (pre @ row # post) files = (files2, Some e)"
    by (simp add: promote_append [of od pre])
next
  assume a: "arange 0 total_num batch = Inr istarts
       \<and> List.product istarts parent_designs = its_before @ it # its_after
       \<and> print_loop (run2_step kn batch files) its_before = (ls, None)
       \<and> run2_step kn batch files it = Inl e'"
  then have "print_loop (run2_step kn batch files) (it # its_after) = ([], Some e')" by simp
  with a have "print_loop (run2_step kn batch files) (its_before @ it # its_after) = (ls, Some e')"
    by (simp add: print_loop_append)
  with a show "run2 kn total_num batch parent_designs files = (ls, Some e')"
    by (simp add: run2_def)
  from a have "print_loop (run2_step kn batch files) its_before = (ls, None)" by simp
  then show "length ls = length its_before" by (rule print_loop_length)
next
  assume a: "arange 0 total_num batch = Inr (istart # later_starts)
       \<and> parent_designs = parents_before @ fn # parents_after
       \<and> print_loop (run2_step kn batch files) (map (Pair istart) parents_before) = (ls', None)
       \<and> run2_step kn batch files (istart, fn) = Inl e''"
  define rest where
    "rest = map (Pair istart) parents_after @ List.product later_starts parent_designs"
  from a have p: "List.product (istart # later_starts) parent_designs
      = map (Pair istart) parents_before @ (istart, fn) # rest"
    by (simp add: rest_def)
  from a have pre: "print_loop (run2_step kn batch files) (map (Pair istart) parents_before) = (ls', None)"
    by simp
  from a have tail: "print_loop (run2_step kn batch files) ((istart, fn) # rest) = ([], Some e'')"
    by simp
  have "print_loop (run2_step kn batch files) (map (Pair istart) parents_before @ (istart, fn) # rest)
      = (ls', Some e'')"
    unfolding print_loop_append pre tail by simp
  then have "print_loop (run2_step kn batch files) (List.product (istart # later_starts) parent_designs)
      = (ls', Some e'')"
    by (simp only: p)
  with a show "run2 kn total_num batch parent_designs files = (ls', Some e'')"
    by (simp add: run2_def)
  from a have "print_loop (run2_step kn batch files) (map (Pair istart) parents_before) = (ls', None)"
    by simp
  then have "length ls' = length (map (Pair istart) parents_before)"
    by (rule print_loop_length)
  then show "length ls' = length parents_before" by simp
qed

theorem first_error_aborts_witness:
  "promote ''output/hits_r1/'' [row13] run1_files
      = (fst (promote ''output/hits_r1/'' [row13] run1_files), None)
   \<and> promote ''output/hits_r1/'' [row10] (fst (promote ''output/hits_r1/'' [row13] run1_files))
      = (fst (promote ''output/hits_r1/'' [row10] (fst (promote ''output/hits_r1/'' [row13] run1_files))),
         Some (FileNotFoundError ''output/run1/trf_relax/../pd1_r1_10.trb''))
   \<and> promote ''output/hits_r1/'' ([row13] @ row10 # [row7]) run1_files
      = (fst (promote ''output/hits_r1/'' [row10] (fst (promote ''output/hits_r1/'' [row13] run1_files))),
         Some (FileNotFoundError ''output/run1/trf_relax/../pd1_r1_10.trb''))
   \<and> fst (promote ''output/hits_r1/'' ([row13] @ row10 # [row7]) run1_files) ''output/hits_r1/pd1_r1_13.fas''
      = Some (Data ''sequence 13'')
   \<and> fst (promote ''output/hits_r1/'' ([row13] @ row10 # [row7]) run1_files) ''output/hits_r1/pd1_r1_7.pdb''
      = None
   \<and> arange 0 10 5 = Inr [0, 5]
   \<and> List.product [0, 5]
        [''output/hits_r1/pd1_r1_13.pdb'', ''output/hits_r1/pd1_r1_11.pdb'', ''output/hits_r1/pd1_r1_10.pdb'']
        = [(0::int, ''output/hits_r1/pd1_r1_13.pdb'')] @ (0, ''output/hits_r1/pd1_r1_11.pdb'')
             # [(0, ''output/hits_r1/pd1_r1_10.pdb''), (5, ''output/hits_r1/pd1_r1_13.pdb''),
                (5, ''output/hits_r1/pd1_r1_11.pdb''), (5, ''output/hits_r1/pd1_r1_10.pdb'')]
   \<and> [''output/hits_r1/pd1_r1_13.pdb'', ''output/hits_r1/pd1_r1_11.pdb'', ''output/hits_r1/pd1_r1_10.pdb'']
        = [''output/hits_r1/pd1_r1_13.pdb''] @ ''output/hits_r1/pd1_r1_11.pdb'' # [''output/hits_r1/pd1_r1_10.pdb'']
   \<and> print_loop (run2_step tutorial_knobs 5 hits_files) [(0, ''output/hits_r1/pd1_r1_13.pdb'')]
        = (fst (print_loop (run2_step tutorial_knobs 5 hits_files) [(0, ''output/hits_r1/pd1_r1_13.pdb'')]), None)
   \<and> run2_step tutorial_knobs 5 hits_files (0, ''output/hits_r1/pd1_r1_11.pdb'')
        = Inl (FileNotFoundError ''output/hits_r1/pd1_r1_11.trb'')
   \<and> run2 tutorial_knobs 10 5
        [''output/hits_r1/pd1_r1_13.pdb'', ''output/hits_r1/pd1_r1_11.pdb'', ''output/hits_r1/pd1_r1_10.pdb'']
        hits_files
        = (fst (print_loop (run2_step tutorial_knobs 5 hits_files) [(0, ''output/hits_r1/pd1_r1_13.pdb'')]),
           Some (FileNotFoundError ''output/hits_r1/pd1_r1_11.trb''))
   \<and> length (fst (print_loop (run2_step tutorial_knobs 5 hits_files)
                     [(0, ''output/hits_r1/pd1_r1_13.pdb'')])) = 1"
proof -
  have p0: "promote ''output/hits_r1/'' [row13] run1_files
      = (fst (promote ''output/hits_r1/'' [row13] run1_files), None)"
    by (simp add: promote_row13)
  have p1: "promote ''output/hits_r1/'' [row10] (fst (promote ''output/hits_r1/'' [row13] run1_files))
      = (fst (promote ''output/hits_r1/'' [row10] (fst (promote ''output/hits_r1/'' [row13] run1_files))),
         Some (FileNotFoundError ''output/run1/trf_relax/../pd1_r1_10.trb''))"
    by (simp add: promote_row13 promote_row10_after_row13)
  have r0: "arange 0 10 5 = Inr [0, 5]"
    by (simp add: arange_def upt_rec)
  have r1: "List.product [0, 5]
        [''output/hits_r1/pd1_r1_13.pdb'', ''output/hits_r1/pd1_r1_11.pdb'', ''output/hits_r1/pd1_r1_10.pdb'']
        = [(0::int, ''output/hits_r1/pd1_r1_13.pdb'')] @ (0, ''output/hits_r1/pd1_r1_11.pdb'')
             # [(0, ''output/hits_r1/pd1_r1_10.pdb''), (5, ''output/hits_r1/pd1_r1_13.pdb''),
                (5, ''output/hits_r1/pd1_r1_11.pdb''), (5, ''output/hits_r1/pd1_r1_10.pdb'')]"
    by simp
  have r1': "[''output/hits_r1/pd1_r1_13.pdb'', ''output/hits_r1/pd1_r1_11.pdb'', ''output/hits_r1/pd1_r1_10.pdb'']
        = [''output/hits_r1/pd1_r1_13.pdb''] @ ''output/hits_r1/pd1_r1_11.pdb'' # [''output/hits_r1/pd1_r1_10.pdb'']"
    by simp
  note r2 = print_loop_13
  note r3 = run2_step_11 [of 0]
  note t = first_error_aborts [where od = "''output/hits_r1/''" and pre = "[row13]" and files = run1_files
      and ?files1.0 = "fst (promote ''output/hits_r1/'' [row13] run1_files)"
      and row = row10 and post = "[row7]"
      and ?files2.0 = "fst (promote ''output/hits_r1/'' [row10]
                             (fst (promote ''output/hits_r1/'' [row13] run1_files)))"
      and e = "FileNotFoundError ''output/run1/trf_relax/../pd1_r1_10.trb''"]
  note u = first_error_aborts [where total_num = 10 and batch = 5 and istarts = "[0, 5]"
      and parent_designs = "[''output/hits_r1/pd1_r1_13.pdb'', ''output/hits_r1/pd1_r1_11.pdb'',
                             ''output/hits_r1/pd1_r1_10.pdb'']"
      and its_before = "[(0, ''output/hits_r1/pd1_r1_13.pdb'')]"
      and it = "(0, ''output/hits_r1/pd1_r1_11.pdb'')"
      and its_after = "[(0, ''output/hits_r1/pd1_r1_10.pdb''), (5, ''output/hits_r1/pd1_r1_13.pdb''),
                (5, ''output/hits_r1/pd1_r1_11.pdb''), (5, ''output/hits_r1/pd1_r1_10.pdb'')]"
      and kn = tutorial_knobs and files = hits_files
      and ls = "fst (print_loop (run2_step tutorial_knobs 5 hits_files) [(0, ''output/hits_r1/pd1_r1_13.pdb'')])"
      and e' = "FileNotFoundError ''output/hits_r1/pd1_r1_11.trb''"
      and istart = 0 and later_starts = "[5]"
      and parents_before = "[''output/hits_r1/pd1_r1_13.pdb'']"
      and fn = "''output/hits_r1/pd1_r1_11.pdb''"
      and parents_after = "[''output/hits_r1/pd1_r1_10.pdb'']"
      and ls' = "fst (print_loop (run2_step tutorial_knobs 5 hits_files) [(0, ''output/hits_r1/pd1_r1_13.pdb'')])"
      and e'' = "FileNotFoundError ''output/hits_r1/pd1_r1_11.trb''"]
  from t p0 p1 have c1: "promote ''output/hits_r1/'' ([row13] @ row10 # [row7]) run1_files
      = (fst (promote ''output/hits_r1/'' [row10] (fst (promote ''output/hits_r1/'' [row13] run1_files))),
         Some (FileNotFoundError ''output/run1/trf_relax/../pd1_r1_10.trb''))"
    by blast
  have f: "fst (promote ''output/hits_r1/'' [row10] (fst (promote ''output/hits_r1/'' [row13] run1_files)))
      = run1_files(''output/hits_r1/pd1_r1_13.pdb'' \<mapsto> Data ''model 13'',
                 ''output/hits_r1/af2/pd1_r1_13_af2pred.pdb'' \<mapsto> Data ''af2 model 13'',
                 ''output/hits_r1/pd1_r1_13.trb'' \<mapsto>
                    Pickle [''sampled_mask'' \<mapsto> ''27-27,A63-82,21-21,A119-140,3-3''],
                 ''output/hits_r1/pd1_r1_13.fas'' \<mapsto> Data ''sequence 13'',
                 ''output/hits_r1/pd1_r1_10.pdb'' \<mapsto> Data ''model 10'',
                 ''output/hits_r1/af2/pd1_r1_10_af2pred.pdb'' \<mapsto> Data ''af2 model 10'')"
    by (simp add: promote_row13 promote_row10_after_row13)
  have c1a: "fst (promote ''output/hits_r1/'' ([row13] @ row10 # [row7]) run1_files) ''output/hits_r1/pd1_r1_13.fas''
      = Some (Data ''sequence 13'')"
    by (simp only: c1 fst_conv f) simp
  have c1b: "fst (promote ''output/hits_r1/'' ([row13] @ row10 # [row7]) run1_files) ''output/hits_r1/pd1_r1_7.pdb''
      = None"
    by (simp only: c1 fst_conv f) (simp add: run1_files_def)
  from u r0 r1 r2 r3 have c2: "run2 tutorial_knobs 10 5
        [''output/hits_r1/pd1_r1_13.pdb'', ''output/hits_r1/pd1_r1_11.pdb'', ''output/hits_r1/pd1_r1_10.pdb'']
        hits_files
        = (fst (print_loop (run2_step tutorial_knobs 5 hits_files) [(0, ''output/hits_r1/pd1_r1_13.pdb'')]),
           Some (FileNotFoundError ''output/hits_r1/pd1_r1_11.trb''))"
    and c3: "length (fst (print_loop (run2_step tutorial_knobs 5 hits_files)
                     [(0, ''output/hits_r1/pd1_r1_13.pdb'')])) = length [(0::int, ''output/hits_r1/pd1_r1_13.pdb'')]"
    by blast+
  from c3 have c3': "length (fst (print_loop (run2_step tutorial_knobs 5 hits_files)
                     [(0, ''output/hits_r1/pd1_r1_13.pdb'')])) = 1"
    by simp
  from p0 p1 c1 c1a c1b r0 r1 r1' r2 r3 c2 c3' show ?thesis by (intro conjI)
qed

text \<open>
  Claim C8. The commands of run 2 are a function of the knobs, the loop bounds, the list
  of parents and the metadata files of the parents alone: two runs on file systems that
  agree on the metadata file of every parent, with the same knobs, print the same
  commands, character for character, and build the same job for every parent; whatever
  else differs between the two file systems has no effect.
\<close>

theorem metadata_determines_commands:
  assumes "\<forall>fn\<in>set parent_designs.
             files1 (replace ''.pdb'' ''.trb'' fn) = files2 (replace ''.pdb'' ''.trb'' fn)"
  shows "run2 kn total_num batch parent_designs files1 = run2 kn total_num batch parent_designs files2
     \<and> (\<forall>fn\<in>set parent_designs. \<forall>istart.
           run2_job kn batch files1 istart fn = run2_job kn batch files2 istart fn)"
proof -
  have job: "run2_job kn batch files1 istart fn = run2_job kn batch files2 istart fn"
    if "fn \<in> set parent_designs" for istart fn
    using assms that by (simp add: run2_job_def np_load_def)
  have step: "run2_step kn batch files1 p = run2_step kn batch files2 p"
    if "p \<in> set (List.product istarts parent_designs)" for p istarts
  proof -
    from that have "snd p \<in> set parent_designs" by auto
    then show ?thesis by (simp add: run2_step_def job)
  qed
  have loop: "print_loop (run2_step kn batch files1) (List.product istarts parent_designs)
      = print_loop (run2_step kn batch files2) (List.product istarts parent_designs)" for istarts
    by (rule print_loop_cong) (rule step)
  have "run2 kn total_num batch parent_designs files1 = run2 kn total_num batch parent_designs files2"
    unfolding run2_def
    by (cases "arange 0 total_num batch") (simp_all add: loop)
  with job show ?thesis by blast
qed

theorem metadata_determines_commands_witness:
  "hits_files (replace ''.pdb'' ''.trb'' ''output/hits_r1/pd1_r1_13.pdb'')
     = (hits_files(''output/run2/pd1_r1_13_r2_0.log'' \<mapsto> Data ''log'',
                   ''output/hits_r1/pd1_r1_13.fas'' \<mapsto> Data ''sequence 13''))
         (replace ''.pdb'' ''.trb'' ''output/hits_r1/pd1_r1_13.pdb'')
   \<and> hits_files (replace ''.pdb'' ''.trb'' ''output/hits_r1/pd1_r1_10.pdb'')
     = (hits_files(''output/run2/pd1_r1_13_r2_0.log'' \<mapsto> Data ''log'',
                   ''output/hits_r1/pd1_r1_13.fas'' \<mapsto> Data ''sequence 13''))
         (replace ''.pdb'' ''.trb'' ''output/hits_r1/pd1_r1_10.pdb'')
   \<and> run2 tutorial_knobs 10 5 [''output/hits_r1/pd1_r1_13.pdb'', ''output/hits_r1/pd1_r1_10.pdb''] hits_files
     = run2 tutorial_knobs 10 5 [''output/hits_r1/pd1_r1_13.pdb'', ''output/hits_r1/pd1_r1_10.pdb'']
         (hits_files(''output/run2/pd1_r1_13_r2_0.log'' \<mapsto> Data ''log'',
                     ''output/hits_r1/pd1_r1_13.fas'' \<mapsto> Data ''sequence 13''))
   \<and> length (fst (run2 tutorial_knobs 10 5
         [''output/hits_r1/pd1_r1_13.pdb'', ''output/hits_r1/pd1_r1_10.pdb''] hits_files)) = 4"
proof -
  have h: "\<forall>fn\<in>set [''output/hits_r1/pd1_r1_13.pdb'', ''output/hits_r1/pd1_r1_10.pdb''].
       hits_files (replace ''.pdb'' ''.trb'' fn)
         = (hits_files(''output/run2/pd1_r1_13_r2_0.log'' \<mapsto> Data ''log'',
                       ''output/hits_r1/pd1_r1_13.fas'' \<mapsto> Data ''sequence 13''))
             (replace ''.pdb'' ''.trb'' fn)"
    by (simp add: replace_def)
  have s: "\<exists>line. run2_step tutorial_knobs 5 hits_files (i, ''output/hits_r1/pd1_r1_13.pdb'') = Inr line"
     "\<exists>line. run2_step tutorial_knobs 5 hits_files (i, ''output/hits_r1/pd1_r1_10.pdb'') = Inr line" for i
    by (simp_all add: run2_step_def run2_job_def replace_def np_load_def getitem_def hits_files_def Let_def)
  have n: "length (fst (run2 tutorial_knobs 10 5
         [''output/hits_r1/pd1_r1_13.pdb'', ''output/hits_r1/pd1_r1_10.pdb''] hits_files)) = 4"
    using s [of 0] s [of 5] by (auto simp: run2_def arange_def upt_rec)
  from h have h': "hits_files (replace ''.pdb'' ''.trb'' ''output/hits_r1/pd1_r1_13.pdb'')
     = (hits_files(''output/run2/pd1_r1_13_r2_0.log'' \<mapsto> Data ''log'',
                   ''output/hits_r1/pd1_r1_13.fas'' \<mapsto> Data ''sequence 13''))
         (replace ''.pdb'' ''.trb'' ''output/hits_r1/pd1_r1_13.pdb'')"
    and h'': "hits_files (replace ''.pdb'' ''.trb'' ''output/hits_r1/pd1_r1_10.pdb'')
     = (hits_files(''output/run2/pd1_r1_13_r2_0.log'' \<mapsto> Data ''log'',
                   ''output/hits_r1/pd1_r1_13.fas'' \<mapsto> Data ''sequence 13''))
         (replace ''.pdb'' ''.trb'' ''output/hits_r1/pd1_r1_10.pdb'')"
    by simp_all
  from metadata_determines_commands [OF h, of tutorial_knobs 10 5] h' h'' n show ?thesis
    by (intro conjI) blast+
qed

end
